theory Spec2Isabelle
  imports Main "HOL-Library.AList"
begin

section \<open>Data model (shared schema)\<close>

text \<open>
  The tables of the shared schema. Every \<open>text\<close> column is a \<open>string\<close>, every \<open>integer\<close>
  and \<open>serial\<close> column an \<open>int\<close>; a nullable column is an \<open>option\<close>. Roles are plain text in
  the schema, so they are strings here and compared with string equality, as the routes do.
  Field names carry a prefix because several tables share the names \<open>id\<close>, \<open>name\<close>,
  \<open>role\<close>, \<open>userId\<close> and \<open>projectId\<close>.
\<close>

record user =
  user_id :: int
  username :: string
  password :: string
  email :: string
  fullName :: string
  user_role :: string

record insertUser =
  iu_username :: string
  iu_password :: string
  iu_email :: string
  iu_fullName :: string
  iu_role :: "string option"

record project =
  project_id :: int
  project_name :: string
  project_description :: "string option"

record userProject =
  up_id :: int
  up_userId :: int
  up_projectId :: int
  up_role :: string

record insertUserProject =
  iup_userId :: int
  iup_projectId :: int
  iup_role :: "string option"

record secret =
  secret_id :: int
  secret_name :: string
  secret_value :: string
  secret_description :: "string option"
  secret_projectId :: int
  ssmPath :: string
  isEncrypted :: bool

record insertSecret =
  is_name :: string
  is_value :: string
  is_description :: "string option"
  is_projectId :: int
  is_ssmPath :: string
  is_isEncrypted :: "bool option"

text \<open>\<open>Partial<InsertSecret>\<close>: the body of an update, every field optional.\<close>

record partialSecret =
  ps_name :: "string option"
  ps_value :: "string option"
  ps_description :: "string option option"
  ps_projectId :: "int option"
  ps_ssmPath :: "string option"
  ps_isEncrypted :: "bool option"

record activityLog =
  log_id :: int
  log_userId :: int
  log_action :: string
  log_resourceType :: string
  log_resourceId :: int
  log_details :: "string option"
  log_timestamp :: nat

record insertActivityLog =
  il_userId :: int
  il_action :: string
  il_resourceType :: string
  il_resourceId :: int
  il_details :: "string option"

section \<open>Relational store (PgStorage)\<close>

text \<open>
  A table is the list of its rows in insertion order; each \<open>serial\<close> column has its
  sequence. An insert takes the next value of the sequence (the value is consumed even when
  the insert is rejected) and is rejected, which the caller sees as a thrown error, when the
  primary key or a \<open>unique\<close> column would be duplicated.
\<close>

record db =
  users :: "user list"
  projects :: "project list"
  userProjects :: "userProject list"
  secrets :: "secret list"
  activityLogs :: "activityLog list"
  users_id_seq :: int
  projects_id_seq :: int
  user_projects_id_seq :: int
  secrets_id_seq :: int
  activity_logs_id_seq :: int

definition getUser :: "int \<Rightarrow> db \<Rightarrow> user option" where
  "getUser i d = find (\<lambda>u. user_id u = i) (users d)"

definition createUser :: "insertUser \<Rightarrow> db \<Rightarrow> user option \<times> db" where
  "createUser u d =
     (let i = users_id_seq d;
          row = \<lparr>user_id = i, username = iu_username u, password = iu_password u,
                 email = iu_email u, fullName = iu_fullName u,
                 user_role = (case iu_role u of None \<Rightarrow> ''user'' | Some r \<Rightarrow> r)\<rparr>;
          d' = d\<lparr>users_id_seq := i + 1\<rparr>
      in if i \<in> set (map user_id (users d))
            \<or> iu_username u \<in> set (map username (users d))
            \<or> iu_email u \<in> set (map email (users d))
         then (None, d')
         else (Some row, d'\<lparr>users := users d @ [row]\<rparr>))"

definition getProject :: "int \<Rightarrow> db \<Rightarrow> project option" where
  "getProject i d = find (\<lambda>p. project_id p = i) (projects d)"

definition getSecret :: "int \<Rightarrow> db \<Rightarrow> secret option" where
  "getSecret i d = find (\<lambda>s. secret_id s = i) (secrets d)"

definition getProjectSecrets :: "int \<Rightarrow> db \<Rightarrow> secret list" where
  "getProjectSecrets pid d = filter (\<lambda>s. secret_projectId s = pid) (secrets d)"

definition createSecret :: "insertSecret \<Rightarrow> db \<Rightarrow> secret option \<times> db" where
  "createSecret s d =
     (let i = secrets_id_seq d;
          row = \<lparr>secret_id = i, secret_name = is_name s, secret_value = is_value s,
                 secret_description = is_description s, secret_projectId = is_projectId s,
                 ssmPath = is_ssmPath s,
                 isEncrypted = (case is_isEncrypted s of None \<Rightarrow> False | Some b \<Rightarrow> b)\<rparr>;
          d' = d\<lparr>secrets_id_seq := i + 1\<rparr>
      in if i \<in> set (map secret_id (secrets d)) then (None, d')
         else (Some row, d'\<lparr>secrets := secrets d @ [row]\<rparr>))"

text \<open>\<open>.set(secret)\<close>: every supplied field overwrites the column, the others stay.\<close>

definition setFields :: "partialSecret \<Rightarrow> secret \<Rightarrow> secret" where
  "setFields p s =
     s\<lparr>secret_name := (case ps_name p of None \<Rightarrow> secret_name s | Some v \<Rightarrow> v),
       secret_value := (case ps_value p of None \<Rightarrow> secret_value s | Some v \<Rightarrow> v),
       secret_description := (case ps_description p of None \<Rightarrow> secret_description s | Some v \<Rightarrow> v),
       secret_projectId := (case ps_projectId p of None \<Rightarrow> secret_projectId s | Some v \<Rightarrow> v),
       ssmPath := (case ps_ssmPath p of None \<Rightarrow> ssmPath s | Some v \<Rightarrow> v),
       isEncrypted := (case ps_isEncrypted p of None \<Rightarrow> isEncrypted s | Some v \<Rightarrow> v)\<rparr>"

text \<open>
  The update throws, and the table stays as it was, in two cases: the body supplies no
  field (the query builder refuses an empty \<open>SET\<close>), or the id or a supplied project id
  is outside the range of the 32-bit \<open>integer\<close> column. The result \<open>None\<close> is the thrown
  error; otherwise the result holds the first updated row, if there is one.
\<close>

definition int4 :: "int \<Rightarrow> bool" where
  "int4 i = (- 2147483648 \<le> i \<and> i \<le> 2147483647)"

definition noFields :: "partialSecret \<Rightarrow> bool" where
  "noFields p =
     (ps_name p = None \<and> ps_value p = None \<and> ps_description p = None
      \<and> ps_projectId p = None \<and> ps_ssmPath p = None \<and> ps_isEncrypted p = None)"

definition updateAccepted :: "int \<Rightarrow> partialSecret \<Rightarrow> bool" where
  "updateAccepted i p =
     (\<not> noFields p \<and> int4 i
      \<and> (case ps_projectId p of None \<Rightarrow> True | Some q \<Rightarrow> int4 q))"

definition updateSecret ::
  "int \<Rightarrow> partialSecret \<Rightarrow> db \<Rightarrow> secret option option \<times> db" where
  "updateSecret i p d =
     (if \<not> updateAccepted i p then (None, d)
      else
        let rows = map (\<lambda>s. if secret_id s = i then setFields p s else s) (secrets d)
        in (Some (find (\<lambda>s. secret_id s = i) rows), d\<lparr>secrets := rows\<rparr>))"

definition deleteSecret :: "int \<Rightarrow> db \<Rightarrow> bool \<times> db" where
  "deleteSecret i d =
     (filter (\<lambda>s. secret_id s = i) (secrets d) \<noteq> [],
      d\<lparr>secrets := filter (\<lambda>s. secret_id s \<noteq> i) (secrets d)\<rparr>)"

definition getUserProject :: "int \<Rightarrow> int \<Rightarrow> db \<Rightarrow> userProject option" where
  "getUserProject uid pid d =
     find (\<lambda>up. up_userId up = uid \<and> up_projectId up = pid) (userProjects d)"

text \<open>PgStorage.assignUserToProject is a plain insert into \<open>user_projects\<close>.\<close>

definition assignUserToProject :: "insertUserProject \<Rightarrow> db \<Rightarrow> userProject option \<times> db" where
  "assignUserToProject up d =
     (let i = user_projects_id_seq d;
          row = \<lparr>up_id = i, up_userId = iup_userId up, up_projectId = iup_projectId up,
                 up_role = (case iup_role up of None \<Rightarrow> ''viewer'' | Some r \<Rightarrow> r)\<rparr>;
          d' = d\<lparr>user_projects_id_seq := i + 1\<rparr>
      in if i \<in> set (map up_id (userProjects d)) then (None, d')
         else (Some row, d'\<lparr>userProjects := userProjects d @ [row]\<rparr>))"

definition getProjectUsers :: "int \<Rightarrow> db \<Rightarrow> (userProject \<times> user option) list" where
  "getProjectUsers pid d =
     map (\<lambda>entry. (entry, getUser (up_userId entry) d))
       (filter (\<lambda>up. up_projectId up = pid) (userProjects d))"

text \<open>
  \<open>orderBy(desc(timestamp))\<close>: newest first. Rows with equal timestamps keep their table
  order (SQL leaves their order open).
\<close>

definition newestFirst :: "activityLog list \<Rightarrow> activityLog list" where
  "newestFirst ls = sort_key (\<lambda>l. - int (log_timestamp l)) ls"

definition getProjectActivityLogs :: "int \<Rightarrow> db \<Rightarrow> activityLog list" where
  "getProjectActivityLogs pid d =
     newestFirst (filter (\<lambda>l. log_resourceType l = ''project'' \<and> log_resourceId l = pid)
                    (activityLogs d))"

definition logActivity :: "nat \<Rightarrow> insertActivityLog \<Rightarrow> db \<Rightarrow> activityLog option \<times> db" where
  "logActivity now a d =
     (let i = activity_logs_id_seq d;
          row = \<lparr>log_id = i, log_userId = il_userId a, log_action = il_action a,
                 log_resourceType = il_resourceType a, log_resourceId = il_resourceId a,
                 log_details = il_details a, log_timestamp = now\<rparr>;
          d' = d\<lparr>activity_logs_id_seq := i + 1\<rparr>
      in if i \<in> set (map log_id (activityLogs d)) then (None, d')
         else (Some row, d'\<lparr>activityLogs := activityLogs d @ [row]\<rparr>))"

section \<open>In-memory store (MemStorage)\<close>

text \<open>
  The second implementation of the storage interface. A JavaScript \<open>Map\<close> keeps its keys
  in insertion order and \<open>set\<close> on a present key replaces the value in place: an
  association list under \<open>AList.update\<close>.
\<close>

record mem =
  mem_secrets :: "(int \<times> secret) list"
  mem_activityLogs :: "(int \<times> activityLog) list"
  mem_userProjects :: "(int \<times> userProject) list"
  currentUserProjectId :: int

definition mem_getUserProject :: "int \<Rightarrow> int \<Rightarrow> mem \<Rightarrow> userProject option" where
  "mem_getUserProject uid pid m =
     find (\<lambda>up. up_userId up = uid \<and> up_projectId up = pid) (map snd (mem_userProjects m))"

definition mem_updateUserProjectRole ::
  "int \<Rightarrow> int \<Rightarrow> string \<Rightarrow> mem \<Rightarrow> userProject option \<times> mem" where
  "mem_updateUserProjectRole uid pid r m =
     (case mem_getUserProject uid pid m of
        None \<Rightarrow> (None, m)
      | Some up \<Rightarrow>
          let updatedUserProject = up\<lparr>up_role := r\<rparr>
          in (Some updatedUserProject,
              m\<lparr>mem_userProjects :=
                   AList.update (up_id up) updatedUserProject (mem_userProjects m)\<rparr>))"

text \<open>
  The payload is given with its role present: the in-memory store has no column default to
  fall back on.
\<close>

definition mem_assignUserToProject ::
  "int \<Rightarrow> int \<Rightarrow> string \<Rightarrow> mem \<Rightarrow> userProject option \<times> mem" where
  "mem_assignUserToProject uid pid r m =
     (case mem_getUserProject uid pid m of
        Some existing \<Rightarrow> mem_updateUserProjectRole uid pid r m
      | None \<Rightarrow>
          let i = currentUserProjectId m;
              newUserProject = \<lparr>up_id = i, up_userId = uid, up_projectId = pid, up_role = r\<rparr>
          in (Some newUserProject,
              m\<lparr>currentUserProjectId := i + 1,
                mem_userProjects := AList.update i newUserProject (mem_userProjects m)\<rparr>))"

definition mem_getProjectActivityLogs :: "int \<Rightarrow> mem \<Rightarrow> activityLog list" where
  "mem_getProjectActivityLogs pid m =
     newestFirst
       (filter (\<lambda>l. (log_resourceType l = ''project'' \<and> log_resourceId l = pid)
                   \<or> (log_resourceType l = ''secret''
                      \<and> log_resourceId l
                          \<in> set (map secret_id
                                  (filter (\<lambda>s. secret_projectId s = pid)
                                     (map snd (mem_secrets m))))))
          (map snd (mem_activityLogs m)))"

section \<open>Credential store client and request state\<close>

text \<open>
  The parameter store is an external service: the routes only send it commands, and a
  command either succeeds or throws an error carrying a message. The client is therefore a
  parameter of every route that uses it: a pair of functions over a store state of any
  type, \<open>Inl\<close> holding the message of the thrown error. \<open>putParameter\<close> takes the
  \<open>Name\<close>, the \<open>Value\<close> and the \<open>Type\<close> of the command (\<open>Overwrite\<close> is always true).
\<close>

record 'c ssmClient =
  putParameter :: "string \<Rightarrow> string \<Rightarrow> string \<Rightarrow> 'c \<Rightarrow> string + 'c"
  deleteParameter :: "string \<Rightarrow> 'c \<Rightarrow> string + 'c"

text \<open>
  The journal lists, in the order they are issued, the commands sent to the parameter store
  and the writing calls made on the relational store. It changes nothing in what a route
  computes; it records the order of the effects. The clock is the time that \<open>new Date()\<close>
  reads when a log entry is written.
\<close>

datatype effect =
    SsmPutParameter string string string
  | SsmDeleteParameter string
  | DbCreateUser insertUser
  | DbCreateSecret insertSecret
  | DbUpdateSecret int partialSecret
  | DbDeleteSecret int
  | DbAssignUserToProject insertUserProject
  | DbLogActivity insertActivityLog

record 'c world =
  store :: db
  ssm :: 'c
  clock :: nat
  journal :: "effect list"

definition dbWrite :: "effect \<Rightarrow> (db \<Rightarrow> 'a \<times> db) \<Rightarrow> 'c world \<Rightarrow> 'a \<times> 'c world" where
  "dbWrite e f w =
     (case f (store w) of (r, d) \<Rightarrow> (r, w\<lparr>store := d, journal := journal w @ [e]\<rparr>))"

text \<open>\<open>ssmClient.send\<close>: the result is the message of the thrown error, if any.\<close>

definition sendPut ::
  "'c ssmClient \<Rightarrow> string \<Rightarrow> string \<Rightarrow> string \<Rightarrow> 'c world \<Rightarrow> string option \<times> 'c world" where
  "sendPut client n v t w =
     (let w' = w\<lparr>journal := journal w @ [SsmPutParameter n v t]\<rparr>
      in case putParameter client n v t (ssm w) of
           Inl e \<Rightarrow> (Some e, w')
         | Inr c \<Rightarrow> (None, w'\<lparr>ssm := c\<rparr>))"

definition sendDelete :: "'c ssmClient \<Rightarrow> string \<Rightarrow> 'c world \<Rightarrow> string option \<times> 'c world" where
  "sendDelete client n w =
     (let w' = w\<lparr>journal := journal w @ [SsmDeleteParameter n]\<rparr>
      in case deleteParameter client n (ssm w) of
           Inl e \<Rightarrow> (Some e, w')
         | Inr c \<Rightarrow> (None, w'\<lparr>ssm := c\<rparr>))"

section \<open>Strings\<close>

text \<open>
  A string is the sequence of the bytes of its UTF-8 encoding. \<open>replace(/ /g, "-")\<close> turns
  every space into a hyphen. \<open>String.prototype.toLowerCase\<close> belongs to the language, not
  to the repository, and its case mapping covers all of Unicode: the code that calls it
  takes it as the parameter \<open>toLowerCase\<close>, and what is proved holds for whatever function
  it is.
\<close>

definition replaceSpaces :: "string \<Rightarrow> string" where
  "replaceSpaces s = map (\<lambda>c. if c = CHR '' '' then CHR ''-'' else c) s"

text \<open>The client library's \<open>generateSSMPath\<close>, the same formula as the create route's.\<close>

definition generateSSMPath :: "(string \<Rightarrow> string) \<Rightarrow> string \<Rightarrow> string \<Rightarrow> string" where
  "generateSSMPath toLowerCase projectName secretName =
     (let formattedProjectName = replaceSpaces (toLowerCase projectName)
      in ''/secrets-manager/'' @ formattedProjectName @ ''/'' @ secretName)"

text \<open>
  The \<open>Type\<close> of a put command, \<open>req.body.isEncrypted ? "SecureString" : "String"\<close>: an
  absent flag is falsy.
\<close>

definition parameterType :: "bool option \<Rightarrow> string" where
  "parameterType e = (if e = Some True then ''SecureString'' else ''String'')"

text \<open>A number inside a template string: its decimal digits.\<close>

fun digits :: "nat \<Rightarrow> string" where
  "digits n =
     (if n < 10 then [''0123456789'' ! n]
      else digits (n div 10) @ [''0123456789'' ! (n mod 10)])"

declare digits.simps [simp del]

definition showInt :: "int \<Rightarrow> string" where
  "showInt i = (if i < 0 then CHR ''-'' # digits (nat (- i)) else digits (nat i))"

section \<open>Routes\<close>

datatype resource = ProjectResource project | SecretResource secret

datatype payload =
    Message string
  | ErrorMessage string string
  | UserJson user
  | ProjectJson project
  | SecretJson "secret option"
  | SecretsJson "secret list"
  | UserProjectJson userProject
  | ProjectUsersJson "(userProject \<times> user option) list"
  | LogsJson "(activityLog \<times> (int \<times> string) option \<times> resource option) list"
  | SuccessJson

type_synonym response = "nat \<times> payload"

text \<open>
  A route takes the user of the session (\<open>None\<close> when the request is not authenticated),
  the parsed parameters and body of the request and the state, and returns the response
  with the new state. A body has the type its schema validates, and a path parameter is
  the integer that \<open>parseInt\<close> yields. A call on the store that throws ends the route in
  its \<open>catch\<close> with 500; what was done before stays done.

  The three permission checks that the routes repeat. Each is true when the route answers
  403.
\<close>

definition noProjectAccess :: "user \<Rightarrow> int \<Rightarrow> db \<Rightarrow> bool" where
  "noProjectAccess u pid d =
     (user_role u \<noteq> ''admin'' \<and>
      (case getUserProject (user_id u) pid d of None \<Rightarrow> True | Some up \<Rightarrow> False))"

definition noSecretWritePermission :: "user \<Rightarrow> int \<Rightarrow> db \<Rightarrow> bool" where
  "noSecretWritePermission u pid d =
     (user_role u \<noteq> ''admin'' \<and>
      (case getUserProject (user_id u) pid d of
         None \<Rightarrow> True
       | Some up \<Rightarrow> up_role up \<notin> set [''admin'', ''editor'']))"

definition noProjectAdminPermission :: "user \<Rightarrow> int \<Rightarrow> db \<Rightarrow> bool" where
  "noProjectAdminPermission u pid d =
     (user_role u \<noteq> ''admin'' \<and>
      (case getUserProject (user_id u) pid d of
         None \<Rightarrow> True
       | Some up \<Rightarrow> up_role up \<notin> set [''admin'']))"

text \<open>\<open>POST /api/users\<close>: no middleware but the validation of the body.\<close>

definition post_users :: "user option \<Rightarrow> insertUser \<Rightarrow> 'c world \<Rightarrow> response \<times> 'c world" where
  "post_users req_user body w =
     (case dbWrite (DbCreateUser body) (createUser body) w of
        (None, w1) \<Rightarrow> ((500, Message ''Failed to create user''), w1)
      | (Some usr, w1) \<Rightarrow> ((201, UserJson usr), w1))"

text \<open>\<open>GET /api/projects/:id\<close>\<close>

definition get_project :: "user option \<Rightarrow> int \<Rightarrow> 'c world \<Rightarrow> response \<times> 'c world" where
  "get_project req_user projectId w =
     (case req_user of
        None \<Rightarrow> ((401, Message ''Unauthorized''), w)
      | Some u \<Rightarrow>
          (case getProject projectId (store w) of
             None \<Rightarrow> ((404, Message ''Project not found''), w)
           | Some p \<Rightarrow>
               if noProjectAccess u projectId (store w)
               then ((403, Message ''Forbidden''), w)
               else ((200, ProjectJson p), w)))"

text \<open>\<open>GET /api/projects/:id/secrets\<close>\<close>

definition get_project_secrets :: "user option \<Rightarrow> int \<Rightarrow> 'c world \<Rightarrow> response \<times> 'c world" where
  "get_project_secrets req_user projectId w =
     (case req_user of
        None \<Rightarrow> ((401, Message ''Unauthorized''), w)
      | Some u \<Rightarrow>
          if noProjectAccess u projectId (store w)
          then ((403, Message ''Forbidden''), w)
          else
            let found = getProjectSecrets projectId (store w);
                entry = \<lparr>il_userId = user_id u, il_action = ''viewed'',
                         il_resourceType = ''project'', il_resourceId = projectId,
                         il_details =
                           Some (''Viewed secrets in project with ID: '' @ showInt projectId)\<rparr>
            in case dbWrite (DbLogActivity entry) (logActivity (clock w) entry) w of
                 (None, w1) \<Rightarrow> ((500, Message ''Failed to get project secrets''), w1)
               | (Some l, w1) \<Rightarrow> ((200, SecretsJson found), w1))"

text \<open>\<open>POST /api/secrets\<close>, with the language's \<open>toLowerCase\<close> as its first argument.\<close>

definition post_secrets ::
  "(string \<Rightarrow> string) \<Rightarrow> 'c ssmClient \<Rightarrow> user option \<Rightarrow> insertSecret \<Rightarrow> 'c world
     \<Rightarrow> response \<times> 'c world" where
  "post_secrets toLowerCase client req_user body w =
     (case req_user of
        None \<Rightarrow> ((401, Message ''Unauthorized''), w)
      | Some u \<Rightarrow>
          if noSecretWritePermission u (is_projectId body) (store w)
          then ((403, Message ''Forbidden''), w)
          else
            (case getProject (is_projectId body) (store w) of
               None \<Rightarrow> ((404, Message ''Project not found''), w)
             | Some p \<Rightarrow>
                 let formattedProjectName = replaceSpaces (toLowerCase (project_name p));
                     path = ''/secrets-manager/'' @ formattedProjectName @ ''/'' @ is_name body;
                     ty = parameterType (is_isEncrypted body)
                 in case sendPut client path (is_value body) ty w of
                      (Some e, w1) \<Rightarrow>
                        ((500, ErrorMessage ''Failed to store secret in AWS SSM'' e), w1)
                    | (None, w1) \<Rightarrow>
                        let row = body\<lparr>is_ssmPath := path\<rparr>
                        in case dbWrite (DbCreateSecret row) (createSecret row) w1 of
                             (None, w2) \<Rightarrow> ((500, Message ''Failed to create secret''), w2)
                           | (Some sec, w2) \<Rightarrow>
                               let entry = \<lparr>il_userId = user_id u, il_action = ''created'',
                                            il_resourceType = ''secret'',
                                            il_resourceId = secret_id sec,
                                            il_details =
                                              Some (''Created secret: '' @ secret_name sec
                                                    @ '' in project: '' @ project_name p)\<rparr>
                               in case dbWrite (DbLogActivity entry)
                                         (logActivity (clock w2) entry) w2 of
                                    (None, w3) \<Rightarrow>
                                      ((500, Message ''Failed to create secret''), w3)
                                  | (Some l, w3) \<Rightarrow> ((201, SecretJson (Some sec)), w3)))"

text \<open>
  \<open>PUT /api/secrets/:id\<close>. The body is not validated. The parameter store is written
  when \<open>req.body.value\<close> is truthy (present and not the empty string) and differs from the
  stored value.
\<close>

definition put_secret ::
  "'c ssmClient \<Rightarrow> user option \<Rightarrow> int \<Rightarrow> partialSecret \<Rightarrow> 'c world \<Rightarrow> response \<times> 'c world" where
  "put_secret client req_user secretId body w =
     (case req_user of
        None \<Rightarrow> ((401, Message ''Unauthorized''), w)
      | Some u \<Rightarrow>
          (case getSecret secretId (store w) of
             None \<Rightarrow> ((404, Message ''Secret not found''), w)
           | Some sec \<Rightarrow>
               if noSecretWritePermission u (secret_projectId sec) (store w)
               then ((403, Message ''Forbidden''), w)
               else
                 let ty = parameterType (ps_isEncrypted body)
                 in case (case ps_value body of
                            None \<Rightarrow> (None, w)
                          | Some v \<Rightarrow>
                              if v \<noteq> [] \<and> v \<noteq> secret_value sec
                              then sendPut client (ssmPath sec) v ty w
                              else (None, w)) of
                      (Some e, w1) \<Rightarrow>
                        ((500, ErrorMessage ''Failed to update secret in AWS SSM'' e), w1)
                    | (None, w1) \<Rightarrow>
                        (case dbWrite (DbUpdateSecret secretId body)
                                (updateSecret secretId body) w1 of
                           (None, w2) \<Rightarrow> ((500, Message ''Failed to update secret''), w2)
                         | (Some updatedSecret, w2) \<Rightarrow>
                             let entry = \<lparr>il_userId = user_id u, il_action = ''updated'',
                                          il_resourceType = ''secret'', il_resourceId = secretId,
                                          il_details =
                                            Some (''Updated secret: '' @ secret_name sec)\<rparr>
                             in case dbWrite (DbLogActivity entry)
                                       (logActivity (clock w2) entry) w2 of
                                  (None, w3) \<Rightarrow>
                                    ((500, Message ''Failed to update secret''), w3)
                                | (Some l, w3) \<Rightarrow> ((200, SecretJson updatedSecret), w3))))"

text \<open>\<open>DELETE /api/secrets/:id\<close>\<close>

definition delete_secret ::
  "'c ssmClient \<Rightarrow> user option \<Rightarrow> int \<Rightarrow> 'c world \<Rightarrow> response \<times> 'c world" where
  "delete_secret client req_user secretId w =
     (case req_user of
        None \<Rightarrow> ((401, Message ''Unauthorized''), w)
      | Some u \<Rightarrow>
          (case getSecret secretId (store w) of
             None \<Rightarrow> ((404, Message ''Secret not found''), w)
           | Some sec \<Rightarrow>
               if noProjectAdminPermission u (secret_projectId sec) (store w)
               then ((403, Message ''Forbidden''), w)
               else
                 (case sendDelete client (ssmPath sec) w of
                    (Some e, w1) \<Rightarrow>
                      ((500, ErrorMessage ''Failed to delete secret from AWS SSM'' e), w1)
                  | (None, w1) \<Rightarrow>
                      (case dbWrite (DbDeleteSecret secretId) (deleteSecret secretId) w1 of
                         (deleted, w2) \<Rightarrow>
                           let entry = \<lparr>il_userId = user_id u, il_action = ''deleted'',
                                        il_resourceType = ''secret'', il_resourceId = secretId,
                                        il_details =
                                          Some (''Deleted secret: '' @ secret_name sec)\<rparr>
                           in case dbWrite (DbLogActivity entry)
                                     (logActivity (clock w2) entry) w2 of
                                (None, w3) \<Rightarrow> ((500, Message ''Failed to delete secret''), w3)
                              | (Some l, w3) \<Rightarrow> ((200, SuccessJson), w3)))))"

text \<open>
  \<open>POST /api/user-projects\<close>. In the log line an absent user, project or role prints as
  \<open>undefined\<close>.
\<close>

definition post_user_projects ::
  "user option \<Rightarrow> insertUserProject \<Rightarrow> 'c world \<Rightarrow> response \<times> 'c world" where
  "post_user_projects req_user body w =
     (case req_user of
        None \<Rightarrow> ((401, Message ''Unauthorized''), w)
      | Some u \<Rightarrow>
          if noProjectAdminPermission u (iup_projectId body) (store w)
          then ((403, Message ''Forbidden''), w)
          else
            (case dbWrite (DbAssignUserToProject body) (assignUserToProject body) w of
               (None, w1) \<Rightarrow> ((500, Message ''Failed to assign user to project''), w1)
             | (Some up, w1) \<Rightarrow>
                 let targetName = (case getUser (iup_userId body) (store w1) of
                                     None \<Rightarrow> ''undefined'' | Some t \<Rightarrow> username t);
                     projectName = (case getProject (iup_projectId body) (store w1) of
                                      None \<Rightarrow> ''undefined'' | Some p \<Rightarrow> project_name p);
                     roleName = (case iup_role body of None \<Rightarrow> ''undefined'' | Some r \<Rightarrow> r);
                     entry = \<lparr>il_userId = user_id u, il_action = ''assigned'',
                              il_resourceType = ''project'',
                              il_resourceId = iup_projectId body,
                              il_details =
                                Some (''Assigned user: '' @ targetName @ '' to project: ''
                                      @ projectName @ '' with role: '' @ roleName)\<rparr>
                 in case dbWrite (DbLogActivity entry) (logActivity (clock w1) entry) w1 of
                      (None, w2) \<Rightarrow> ((500, Message ''Failed to assign user to project''), w2)
                    | (Some l, w2) \<Rightarrow> ((201, UserProjectJson up), w2)))"

text \<open>\<open>GET /api/projects/:id/users\<close>\<close>

definition get_project_users :: "user option \<Rightarrow> int \<Rightarrow> 'c world \<Rightarrow> response \<times> 'c world" where
  "get_project_users req_user projectId w =
     (case req_user of
        None \<Rightarrow> ((401, Message ''Unauthorized''), w)
      | Some u \<Rightarrow>
          if noProjectAccess u projectId (store w)
          then ((403, Message ''Forbidden''), w)
          else
            ((200, ProjectUsersJson
                     (map (\<lambda>(up, usr). (up, getUser (up_userId up) (store w)))
                        (getProjectUsers projectId (store w)))), w))"

text \<open>
  \<open>GET /api/projects/:id/activity-logs\<close>. Each entry is returned with the acting user's
  id and name and with the project or secret it refers to, when they still exist.
\<close>

definition enrich ::
  "db \<Rightarrow> activityLog \<Rightarrow> activityLog \<times> (int \<times> string) option \<times> resource option" where
  "enrich d l =
     (l,
      map_option (\<lambda>u. (user_id u, username u)) (getUser (log_userId l) d),
      (if log_resourceType l = ''project''
       then map_option ProjectResource (getProject (log_resourceId l) d)
       else if log_resourceType l = ''secret''
       then map_option SecretResource (getSecret (log_resourceId l) d)
       else None))"

definition get_project_activity_logs ::
  "user option \<Rightarrow> int \<Rightarrow> 'c world \<Rightarrow> response \<times> 'c world" where
  "get_project_activity_logs req_user projectId w =
     (case req_user of
        None \<Rightarrow> ((401, Message ''Unauthorized''), w)
      | Some u \<Rightarrow>
          if noProjectAccess u projectId (store w)
          then ((403, Message ''Forbidden''), w)
          else
            ((200, LogsJson (map (enrich (store w))
                               (getProjectActivityLogs projectId (store w)))), w))"

section \<open>A reference parameter store and sample data\<close>

text \<open>
  The project names of the sample data have no letters outside A to Z and a to z. On such
  a name \<open>toLowerCase\<close> returns the name with each of A to Z replaced by its small letter,
  which is what \<open>lowerAscii\<close> computes; it stands for \<open>toLowerCase\<close> on the sample data
  only.
\<close>

definition lowerAscii :: "string \<Rightarrow> string" where
  "lowerAscii s =
     map (\<lambda>c. case map_of (zip ''ABCDEFGHIJKLMNOPQRSTUVWXYZ'' ''abcdefghijklmnopqrstuvwxyz'') c of
                None \<Rightarrow> c
              | Some l \<Rightarrow> l) s"

text \<open>
  Two clients to run the routes on. \<open>paramStore\<close> keeps the parameters in an association
  list from name to value and type; it refuses an empty value and the deletion of a
  parameter it does not hold. \<open>unreachableStore\<close> fails on every command.
\<close>

type_synonym params = "(string \<times> string \<times> string) list"

definition paramStore :: "params ssmClient" where
  "paramStore =
     \<lparr>putParameter = (\<lambda>n v t c. if v = [] then Inl ''ValidationException''
                                else Inr (AList.update n (v, t) c)),
      deleteParameter = (\<lambda>n c. if map_of c n = None then Inl ''ParameterNotFound''
                               else Inr (AList.delete n c))\<rparr>"

definition unreachableStore :: "params ssmClient" where
  "unreachableStore =
     \<lparr>putParameter = (\<lambda>n v t c. Inl ''ServiceUnavailable''),
      deleteParameter = (\<lambda>n c. Inl ''ServiceUnavailable'')\<rparr>"

definition root :: user where
  "root = \<lparr>user_id = 1, username = ''admin'', password = ''admin123'',
            email = ''admin@example.com'', fullName = ''Admin User'', user_role = ''admin''\<rparr>"

definition erin :: user where
  "erin = \<lparr>user_id = 2, username = ''erin'', password = ''erin-pw'',
            email = ''erin@example.com'', fullName = ''Erin Editor'', user_role = ''user''\<rparr>"

definition vic :: user where
  "vic = \<lparr>user_id = 3, username = ''vic'', password = ''vic-pw'',
           email = ''vic@example.com'', fullName = ''Vic Viewer'', user_role = ''user''\<rparr>"

definition nora :: user where
  "nora = \<lparr>user_id = 4, username = ''nora'', password = ''nora-pw'',
            email = ''nora@example.com'', fullName = ''Nora Nobody'', user_role = ''user''\<rparr>"

definition pat :: user where
  "pat = \<lparr>user_id = 5, username = ''pat'', password = ''pat-pw'',
           email = ''pat@example.com'', fullName = ''Pat Owner'', user_role = ''user''\<rparr>"

definition apiKey :: secret where
  "apiKey = \<lparr>secret_id = 1, secret_name = ''API_KEY'', secret_value = ''abc'',
              secret_description = None, secret_projectId = 1,
              ssmPath = ''/secrets-manager/frontend-api/API_KEY'', isEncrypted = True\<rparr>"

definition apiKeyCreated :: activityLog where
  "apiKeyCreated = \<lparr>log_id = 1, log_userId = 2, log_action = ''created'',
                     log_resourceType = ''secret'', log_resourceId = 1,
                     log_details = Some ''Created secret: API_KEY in project: Frontend API'',
                     log_timestamp = 5\<rparr>"

definition db0 :: db where
  "db0 = \<lparr>users = [root, erin, vic, nora, pat],
           projects = [\<lparr>project_id = 1, project_name = ''Frontend API'',
                         project_description = Some ''Frontend API keys and configuration''\<rparr>,
                       \<lparr>project_id = 2, project_name = ''Auth Service'',
                         project_description = Some ''Authentication service configuration''\<rparr>],
           userProjects = [\<lparr>up_id = 1, up_userId = 2, up_projectId = 1, up_role = ''editor''\<rparr>,
                           \<lparr>up_id = 2, up_userId = 3, up_projectId = 1, up_role = ''viewer''\<rparr>,
                           \<lparr>up_id = 3, up_userId = 5, up_projectId = 1, up_role = ''admin''\<rparr>],
           secrets = [apiKey],
           activityLogs = [apiKeyCreated],
           users_id_seq = 6, projects_id_seq = 3, user_projects_id_seq = 4,
           secrets_id_seq = 2, activity_logs_id_seq = 2\<rparr>"

definition world0 :: "params world" where
  "world0 = \<lparr>store = db0,
              ssm = [(''/secrets-manager/frontend-api/API_KEY'', (''abc'', ''SecureString''))],
              clock = 10, journal = []\<rparr>"

definition mem0 :: mem where
  "mem0 = \<lparr>mem_secrets = [(1, apiKey)],
            mem_activityLogs = [(1, apiKeyCreated)],
            mem_userProjects =
              [(1, \<lparr>up_id = 1, up_userId = 2, up_projectId = 1, up_role = ''editor''\<rparr>),
               (2, \<lparr>up_id = 2, up_userId = 3, up_projectId = 1, up_role = ''viewer''\<rparr>),
               (3, \<lparr>up_id = 3, up_userId = 5, up_projectId = 1, up_role = ''admin''\<rparr>)],
            currentUserProjectId = 4\<rparr>"

definition dbPassword :: insertSecret where
  "dbPassword = \<lparr>is_name = ''DB Password'', is_value = ''s3cr3t'', is_description = None,
                  is_projectId = 1, is_ssmPath = ''/chosen/by/the/client'',
                  is_isEncrypted = Some True\<rparr>"

definition mallory :: insertUser where
  "mallory = \<lparr>iu_username = ''mallory'', iu_password = ''hunter22'',
               iu_email = ''mallory@example.com'', iu_fullName = ''Mallory'',
               iu_role = Some ''admin''\<rparr>"

definition noChange :: partialSecret where
  "noChange = \<lparr>ps_name = None, ps_value = None, ps_description = None, ps_projectId = None,
                ps_ssmPath = None, ps_isEncrypted = None\<rparr>"

definition moveToAuthService :: partialSecret where
  "moveToAuthService = noChange\<lparr>ps_projectId := Some 2, ps_ssmPath := Some ''/elsewhere''\<rparr>"

definition emptyValue :: partialSecret where
  "emptyValue = noChange\<lparr>ps_value := Some ''''\<rparr>"

definition newValueOnly :: partialSecret where
  "newValueOnly = noChange\<lparr>ps_value := Some ''xyz''\<rparr>"

section \<open>Auxiliary definitions for the statements\<close>

text \<open>The 403 answer, which leaves the state as it was.\<close>

definition forbidden :: "'c world \<Rightarrow> response \<times> 'c world" where
  "forbidden w = ((403, Message ''Forbidden''), w)"

text \<open>The state with the whole \<open>user_projects\<close> table replaced.\<close>

definition withUserProjects :: "userProject list \<Rightarrow> 'c world \<Rightarrow> 'c world" where
  "withUserProjects ups w = w\<lparr>store := (store w)\<lparr>userProjects := ups\<rparr>\<rparr>"

text \<open>The body of an update that supplies the project id and nothing else.\<close>

definition onlyProjectId :: "int \<Rightarrow> partialSecret" where
  "onlyProjectId q =
     \<lparr>ps_name = None, ps_value = None, ps_description = None, ps_projectId = Some q,
      ps_ssmPath = None, ps_isEncrypted = None\<rparr>"

text \<open>The (user, project) pairs of a list of role rows, and the rows of one pair.\<close>

definition pairOf :: "userProject \<Rightarrow> int \<times> int" where
  "pairOf up = (up_userId up, up_projectId up)"

definition pairs :: "userProject list \<Rightarrow> (int \<times> int) list" where
  "pairs ups = map pairOf ups"

definition rowsOf :: "int \<Rightarrow> int \<Rightarrow> userProject list \<Rightarrow> userProject list" where
  "rowsOf uid pid ups = filter (\<lambda>up. up_userId up = uid \<and> up_projectId up = pid) ups"

text \<open>
  What the in-memory store keeps true of its map of role rows by construction: a key
  occurs once, and a row is stored under its own id.
\<close>

definition mem_wellFormed :: "mem \<Rightarrow> bool" where
  "mem_wellFormed m =
     (distinct (map fst (mem_userProjects m))
      \<and> (\<forall>(k, up) \<in> set (mem_userProjects m). up_id up = k))"

section \<open>Facts about the relational store\<close>

lemmas check_defs =
  noProjectAccess_def noSecretWritePermission_def noProjectAdminPermission_def

lemma find_append_fresh:
  "i \<notin> f ` set xs \<Longrightarrow> f y = i \<Longrightarrow> find (\<lambda>x. f x = i) (xs @ [y]) = Some y"
  by (induction xs) auto

lemma find_append_Some:
  "find P xs = Some x \<Longrightarrow> find P (xs @ ys) = Some x"
  by (induction xs) (auto split: if_splits)

lemma getSecret_after_log [simp]:
  "getSecret sid (snd (logActivity now a d)) = getSecret sid d"
  by (simp add: getSecret_def logActivity_def Let_def)

lemma getSecret_deleted [simp]: "getSecret sid (snd (deleteSecret sid d)) = None"
  by (simp add: getSecret_def deleteSecret_def find_None_iff)

lemma createSecret_Some:
  assumes "createSecret s d = (Some row, d')"
  shows "row = \<lparr>secret_id = secrets_id_seq d, secret_name = is_name s,
                 secret_value = is_value s, secret_description = is_description s,
                 secret_projectId = is_projectId s, ssmPath = is_ssmPath s,
                 isEncrypted = (case is_isEncrypted s of None \<Rightarrow> False | Some b \<Rightarrow> b)\<rparr>"
    and "getSecret (secret_id row) d' = Some row"
    and "secrets d' = secrets d @ [row]"
  using assms
  by (auto simp add: createSecret_def Let_def getSecret_def find_append_fresh split: if_splits)

lemma setFields_id [simp]: "secret_id (setFields p s) = secret_id s"
  by (simp add: setFields_def)

lemma find_map_setFields:
  "find (\<lambda>s. secret_id s = i) (map (\<lambda>s. if secret_id s = i then setFields p s else s) xs)
     = map_option (setFields p) (find (\<lambda>s. secret_id s = i) xs)"
  by (induction xs) auto

lemma getSecret_after_update:
  "updateAccepted i p \<Longrightarrow>
     getSecret i (snd (updateSecret i p d)) = map_option (setFields p) (getSecret i d)"
  by (simp add: updateSecret_def getSecret_def Let_def find_map_setFields)

section \<open>One role row per user and project\<close>

text \<open>
  On the relational store an accepted assignment always adds a row, whatever rows the pair
  already has, and the lookup keeps returning the older row.
\<close>

lemma assignUserToProject_appends:
  assumes "assignUserToProject a d = (Some row, d')"
  shows "rowsOf (iup_userId a) (iup_projectId a) (userProjects d')
           = rowsOf (iup_userId a) (iup_projectId a) (userProjects d) @ [row]"
  using assms
  by (auto simp add: assignUserToProject_def rowsOf_def Let_def split: if_splits)

lemma getUserProject_after_assign:
  assumes "assignUserToProject a d = (Some row, d')"
    and "getUserProject uid pid d = Some old"
  shows "getUserProject uid pid d' = Some old"
  using assms
  by (auto simp add: assignUserToProject_def getUserProject_def Let_def find_append_Some
        split: if_splits)

text \<open>
  The in-memory store keeps one row per pair: an assignment leaves the pairs distinct, and
  the lookup of the pair then yields the assigned role.
\<close>

lemma find_Some_mem: "find P xs = Some x \<Longrightarrow> x \<in> set xs \<and> P x"
  by (induction xs) (auto split: if_splits)

lemma update_pairs_subset:
  "set (map (pairOf \<circ> snd) (AList.update k v xs))
     \<subseteq> insert (pairOf v) (set (map (pairOf \<circ> snd) xs))"
  by (induction xs) auto

lemma update_new_pair_distinct:
  assumes "distinct (map (pairOf \<circ> snd) xs)" and "pairOf v \<notin> set (map (pairOf \<circ> snd) xs)"
  shows "distinct (map (pairOf \<circ> snd) (AList.update k v xs))"
  using assms
proof (induction xs)
  case Nil
  then show ?case by simp
next
  case (Cons x xs)
  show ?case
  proof (cases "fst x = k")
    case True
    with Cons.prems show ?thesis by (cases x) auto
  next
    case False
    have "pairOf (snd x) \<notin> set (map (pairOf \<circ> snd) (AList.update k v xs))"
      using update_pairs_subset[of k v xs] Cons.prems by auto
    with False Cons show ?thesis by (cases x) auto
  qed
qed

lemma update_same_pair:
  assumes "distinct (map fst xs)" and "(k, e) \<in> set xs" and "pairOf v = pairOf e"
  shows "map (pairOf \<circ> snd) (AList.update k v xs) = map (pairOf \<circ> snd) xs"
  using assms
proof (induction xs)
  case Nil
  then show ?case by simp
next
  case (Cons x xs)
  show ?case
  proof (cases "fst x = k")
    case True
    with Cons.prems have "x = (k, e)" by (cases x) (auto simp: image_iff)
    with Cons.prems show ?thesis by simp
  next
    case False
    with Cons show ?thesis by (cases x) auto
  qed
qed

lemma find_update_fresh:
  assumes "find P (map snd xs) = None" and "P v"
  shows "find P (map snd (AList.update k v xs)) = Some v"
  using assms by (induction xs) (auto split: if_splits)

lemma find_update_first:
  assumes "find P (map snd xs) = Some e" and "distinct (map fst xs)"
    and "\<forall>(k, up) \<in> set xs. up_id up = k" and "P v"
  shows "find P (map snd (AList.update (up_id e) v xs)) = Some v"
  using assms
proof (induction xs)
  case Nil
  then show ?case by simp
next
  case (Cons x xs)
  obtain k u where x: "x = (k, u)" by (cases x)
  show ?case
  proof (cases "P u")
    case True
    with Cons.prems x show ?thesis by auto
  next
    case False
    with Cons.prems x have f: "find P (map snd xs) = Some e" by simp
    then have "e \<in> snd ` set xs" by (auto dest: find_Some_mem)
    then obtain k' where "(k', e) \<in> set xs" by auto
    with Cons.prems(3) have "(up_id e, e) \<in> set xs" by auto
    with Cons.prems(2) x have "k \<noteq> up_id e" by (auto simp: image_iff)
    with False x f Cons show ?thesis by auto
  qed
qed

lemma mem_assign_keeps_one_row_per_pair:
  assumes "mem_wellFormed m" and "distinct (pairs (map snd (mem_userProjects m)))"
  shows "distinct (pairs (map snd (mem_userProjects
                                     (snd (mem_assignUserToProject uid pid r m)))))"
proof (cases "mem_getUserProject uid pid m")
  case None
  then have "(uid, pid) \<notin> set (map pairOf (map snd (mem_userProjects m)))"
    by (auto simp add: mem_getUserProject_def find_None_iff pairOf_def)
  then show ?thesis
    using None assms(2)
    by (simp add: mem_assignUserToProject_def Let_def pairs_def update_new_pair_distinct
          pairOf_def)
next
  case (Some e)
  then have "e \<in> set (map snd (mem_userProjects m))"
    unfolding mem_getUserProject_def by (auto dest: find_Some_mem)
  then obtain k where "(k, e) \<in> set (mem_userProjects m)" by auto
  with assms(1) have k: "(up_id e, e) \<in> set (mem_userProjects m)"
    and d: "distinct (map fst (mem_userProjects m))"
    by (auto simp: mem_wellFormed_def)
  have "map (pairOf \<circ> snd) (AList.update (up_id e) (e\<lparr>up_role := r\<rparr>) (mem_userProjects m))
          = map (pairOf \<circ> snd) (mem_userProjects m)"
    by (rule update_same_pair[OF d k]) (simp add: pairOf_def)
  then show ?thesis
    using Some assms(2)
    by (simp add: mem_assignUserToProject_def mem_updateUserProjectRole_def Let_def pairs_def)
qed

lemma mem_assign_sets_role:
  assumes "mem_wellFormed m"
  shows "map_option up_role
           (mem_getUserProject uid pid (snd (mem_assignUserToProject uid pid r m))) = Some r"
proof (cases "mem_getUserProject uid pid m")
  case None
  then show ?thesis
    by (simp add: mem_assignUserToProject_def mem_getUserProject_def Let_def
          find_update_fresh)
next
  case (Some e)
  then have f: "find (\<lambda>up. up_userId up = uid \<and> up_projectId up = pid)
                  (map snd (mem_userProjects m)) = Some e"
    by (simp add: mem_getUserProject_def)
  then have pe: "up_userId e = uid \<and> up_projectId e = pid"
    by (auto dest: find_Some_mem)
  from assms have d: "distinct (map fst (mem_userProjects m))"
    and wf: "\<forall>(k, up) \<in> set (mem_userProjects m). up_id up = k"
    by (simp_all add: mem_wellFormed_def)
  have "find (\<lambda>up. up_userId up = uid \<and> up_projectId up = pid)
          (map snd (AList.update (up_id e) (e\<lparr>up_role := r\<rparr>) (mem_userProjects m)))
        = Some (e\<lparr>up_role := r\<rparr>)"
    by (rule find_update_first[OF f d wf]) (simp add: pe)
  with Some show ?thesis
    by (simp add: mem_assignUserToProject_def mem_updateUserProjectRole_def
          mem_getUserProject_def Let_def)
qed

text \<open>
  C6. At most one role row per (user, project), and assigning a role to a pair that has a
  row overwrites that row's role. On the relational store the routes run on this fails: Pat
  holds the role admin in project 1 (row 3); the global admin assigns Pat the role viewer
  in project 1 through \<open>POST /api/user-projects\<close>. The answer is 201, the pair then has two
  rows, and the lookup of Pat's role still yields admin. The in-memory store, on the same
  rows and the same assignment, keeps one row and changes its role to viewer.
\<close>

theorem assignUserToProject_duplicates_row:
  "rowsOf 5 1 (userProjects (store world0))
     = [\<lparr>up_id = 3, up_userId = 5, up_projectId = 1, up_role = ''admin''\<rparr>]
   \<and> (case post_user_projects (Some root)
              \<lparr>iup_userId = 5, iup_projectId = 1, iup_role = Some ''viewer''\<rparr> world0 of
        (r, w) \<Rightarrow>
          fst r = 201
          \<and> rowsOf 5 1 (userProjects (store w))
              = [\<lparr>up_id = 3, up_userId = 5, up_projectId = 1, up_role = ''admin''\<rparr>,
                 \<lparr>up_id = 4, up_userId = 5, up_projectId = 1, up_role = ''viewer''\<rparr>]
          \<and> \<not> distinct (pairs (userProjects (store w)))
          \<and> map_option up_role (getUserProject 5 1 (store w)) = Some ''admin'')
   \<and> (case mem_assignUserToProject 5 1 ''viewer'' mem0 of
        (r, m) \<Rightarrow>
          rowsOf 5 1 (map snd (mem_userProjects m))
            = [\<lparr>up_id = 3, up_userId = 5, up_projectId = 1, up_role = ''viewer''\<rparr>]
          \<and> distinct (pairs (map snd (mem_userProjects m))))"
  by code_simp

section \<open>Project activity logs\<close>

text \<open>
  The relational store's query selects on the resource type \<open>project\<close> alone: no entry of
  a secret is ever returned. The in-memory store returns the entries of the secrets that
  are in the project.
\<close>

lemma getProjectActivityLogs_only_project_entries:
  "l \<in> set (getProjectActivityLogs pid d) \<Longrightarrow>
     log_resourceType l = ''project'' \<and> log_resourceId l = pid"
  by (auto simp add: getProjectActivityLogs_def newestFirst_def)

lemma mem_getProjectActivityLogs_has_secret_entries:
  assumes "(k, l) \<in> set (mem_activityLogs m)" and "log_resourceType l = ''secret''"
    and "(j, s) \<in> set (mem_secrets m)" and "secret_projectId s = pid"
    and "log_resourceId l = secret_id s"
  shows "l \<in> set (mem_getProjectActivityLogs pid m)"
  using assms
  by (force simp add: mem_getProjectActivityLogs_def newestFirst_def)

text \<open>
  C7. The project's log holds the entries of the project and the entries of the secrets
  that are in the project. On the relational store the routes run on this fails: secret 1
  is in project 1 and the log table holds the entry of its creation, yet the project log
  of project 1 is empty, from the store and through \<open>GET /api/projects/1/activity-logs\<close>.
  The in-memory store, on the same rows, returns the entry.
\<close>

theorem getProjectActivityLogs_omits_secret_entries:
  "getSecret 1 (store world0) = Some apiKey \<and> secret_projectId apiKey = 1
   \<and> apiKeyCreated \<in> set (activityLogs (store world0))
   \<and> log_resourceType apiKeyCreated = ''secret''
   \<and> log_resourceId apiKeyCreated = secret_id apiKey
   \<and> getProjectActivityLogs 1 (store world0) = []
   \<and> fst (get_project_activity_logs (Some erin) 1 world0) = (200, LogsJson [])
   \<and> mem_getProjectActivityLogs 1 mem0 = [apiKeyCreated]"
  by code_simp

section \<open>The global admin\<close>

lemma admin_passes_checks:
  "user_role u = ''admin'' \<Longrightarrow>
     \<not> noProjectAccess u pid d \<and> \<not> noSecretWritePermission u pid d
     \<and> \<not> noProjectAdminPermission u pid d"
  by (simp add: check_defs)

text \<open>No route on a project or a secret answers an admin with 403.\<close>

lemma admin_get_project:
  "user_role u = ''admin'' \<Longrightarrow> fst (fst (get_project (Some u) pid w)) \<in> {200, 404}"
  by (simp add: get_project_def admin_passes_checks split: option.splits)

lemma admin_get_project_secrets:
  "user_role u = ''admin'' \<Longrightarrow> fst (fst (get_project_secrets (Some u) pid w)) \<in> {200, 500}"
  by (simp add: get_project_secrets_def admin_passes_checks Let_def
        split: option.splits prod.splits)

lemma admin_post_secrets:
  "user_role u = ''admin'' \<Longrightarrow>
     fst (fst (post_secrets toLowerCase client (Some u) body w)) \<in> {201, 404, 500}"
  by (simp add: post_secrets_def admin_passes_checks Let_def split: option.splits prod.splits)

lemma admin_put_secret:
  "user_role u = ''admin'' \<Longrightarrow>
     fst (fst (put_secret client (Some u) sid pbody w)) \<in> {200, 404, 500}"
  by (simp add: put_secret_def admin_passes_checks Let_def split: option.splits prod.splits)

lemma admin_delete_secret:
  "user_role u = ''admin'' \<Longrightarrow>
     fst (fst (delete_secret client (Some u) sid w)) \<in> {200, 404, 500}"
  by (simp add: delete_secret_def admin_passes_checks Let_def split: option.splits prod.splits)

lemma admin_post_user_projects:
  "user_role u = ''admin'' \<Longrightarrow> fst (fst (post_user_projects (Some u) a w)) \<in> {201, 500}"
  by (simp add: post_user_projects_def admin_passes_checks Let_def
        split: option.splits prod.splits)

lemma admin_get_project_users:
  "user_role u = ''admin'' \<Longrightarrow> fst (fst (get_project_users (Some u) pid w)) = 200"
  by (simp add: get_project_users_def admin_passes_checks)

lemma admin_get_project_activity_logs:
  "user_role u = ''admin'' \<Longrightarrow> fst (fst (get_project_activity_logs (Some u) pid w)) = 200"
  by (simp add: get_project_activity_logs_def admin_passes_checks)

text \<open>
  The routes on secrets and the reads of a project do not look at the role table when the
  caller is an admin: replacing the table by any other changes neither the answer nor what
  is done to the rest of the state.
\<close>

lemma reads_ignore_userProjects [simp]:
  "getSecret i (d\<lparr>userProjects := ups\<rparr>) = getSecret i d"
  "getProject i (d\<lparr>userProjects := ups\<rparr>) = getProject i d"
  "getUser i (d\<lparr>userProjects := ups\<rparr>) = getUser i d"
  "getProjectSecrets i (d\<lparr>userProjects := ups\<rparr>) = getProjectSecrets i d"
  "getProjectActivityLogs i (d\<lparr>userProjects := ups\<rparr>) = getProjectActivityLogs i d"
  "enrich (d\<lparr>userProjects := ups\<rparr>) = enrich d"
  by (simp_all add: getSecret_def getProject_def getUser_def getProjectSecrets_def
        getProjectActivityLogs_def enrich_def fun_eq_iff)

lemma writes_ignore_userProjects:
  "createSecret s (d\<lparr>userProjects := ups\<rparr>)
     = (case createSecret s d of (r, d') \<Rightarrow> (r, d'\<lparr>userProjects := ups\<rparr>))"
  "updateSecret i p (d\<lparr>userProjects := ups\<rparr>)
     = (case updateSecret i p d of (r, d') \<Rightarrow> (r, d'\<lparr>userProjects := ups\<rparr>))"
  "deleteSecret i (d\<lparr>userProjects := ups\<rparr>)
     = (case deleteSecret i d of (b, d') \<Rightarrow> (b, d'\<lparr>userProjects := ups\<rparr>))"
  "logActivity now a (d\<lparr>userProjects := ups\<rparr>)
     = (case logActivity now a d of (r, d') \<Rightarrow> (r, d'\<lparr>userProjects := ups\<rparr>))"
  by (simp_all add: createSecret_def updateSecret_def deleteSecret_def logActivity_def Let_def)

lemma withUserProjects_sel [simp]:
  "store (withUserProjects ups w) = (store w)\<lparr>userProjects := ups\<rparr>"
  "clock (withUserProjects ups w) = clock w"
  "ssm (withUserProjects ups w) = ssm w"
  "journal (withUserProjects ups w) = journal w"
  by (simp_all add: withUserProjects_def)

lemma dbWrite_withUserProjects:
  assumes "\<And>d. f (d\<lparr>userProjects := ups\<rparr>)
                = (case f d of (r, d') \<Rightarrow> (r, d'\<lparr>userProjects := ups\<rparr>))"
  shows "dbWrite e f (withUserProjects ups w)
           = (case dbWrite e f w of (r, w') \<Rightarrow> (r, withUserProjects ups w'))"
  by (simp add: dbWrite_def withUserProjects_def assms split: prod.splits)

lemma sendPut_withUserProjects:
  "sendPut client n v t (withUserProjects ups w)
     = (case sendPut client n v t w of (r, w') \<Rightarrow> (r, withUserProjects ups w'))"
  by (simp add: sendPut_def withUserProjects_def Let_def split: sum.splits)

lemma sendDelete_withUserProjects:
  "sendDelete client n (withUserProjects ups w)
     = (case sendDelete client n w of (r, w') \<Rightarrow> (r, withUserProjects ups w'))"
  by (simp add: sendDelete_def withUserProjects_def Let_def split: sum.splits)

lemmas commute_rules =
  dbWrite_withUserProjects sendPut_withUserProjects sendDelete_withUserProjects
  writes_ignore_userProjects

lemma admin_get_project_ignores_roles:
  "user_role u = ''admin'' \<Longrightarrow>
   get_project (Some u) pid (withUserProjects ups w)
     = (case get_project (Some u) pid w of (r, w') \<Rightarrow> (r, withUserProjects ups w'))"
  by (simp add: get_project_def admin_passes_checks split: option.splits)

lemma admin_get_project_secrets_ignores_roles:
  "user_role u = ''admin'' \<Longrightarrow>
   get_project_secrets (Some u) pid (withUserProjects ups w)
     = (case get_project_secrets (Some u) pid w of (r, w') \<Rightarrow> (r, withUserProjects ups w'))"
  by (simp add: get_project_secrets_def admin_passes_checks commute_rules Let_def
        split: option.splits prod.splits)

lemma admin_post_secrets_ignores_roles:
  "user_role u = ''admin'' \<Longrightarrow>
   post_secrets toLowerCase client (Some u) body (withUserProjects ups w)
     = (case post_secrets toLowerCase client (Some u) body w of (r, w') \<Rightarrow> (r, withUserProjects ups w'))"
  by (simp add: post_secrets_def admin_passes_checks commute_rules Let_def
        split: option.splits prod.splits)

lemma admin_put_secret_ignores_roles:
  "user_role u = ''admin'' \<Longrightarrow>
   put_secret client (Some u) sid pbody (withUserProjects ups w)
     = (case put_secret client (Some u) sid pbody w of
          (r, w') \<Rightarrow> (r, withUserProjects ups w'))"
  by (simp add: put_secret_def admin_passes_checks commute_rules Let_def
        split: option.splits prod.splits)

lemma admin_delete_secret_ignores_roles:
  "user_role u = ''admin'' \<Longrightarrow>
   delete_secret client (Some u) sid (withUserProjects ups w)
     = (case delete_secret client (Some u) sid w of (r, w') \<Rightarrow> (r, withUserProjects ups w'))"
  by (simp add: delete_secret_def admin_passes_checks commute_rules Let_def
        split: option.splits prod.splits)

lemma admin_get_project_activity_logs_ignores_roles:
  "user_role u = ''admin'' \<Longrightarrow>
   get_project_activity_logs (Some u) pid (withUserProjects ups w)
     = (case get_project_activity_logs (Some u) pid w of
          (r, w') \<Rightarrow> (r, withUserProjects ups w'))"
  by (simp add: get_project_activity_logs_def admin_passes_checks)

text \<open>
  C1. For an actor whose global role is admin every permission check passes, on every
  project and in every state of the role table; none of the routes on a project or a
  secret answers 403; and the routes that create, update, delete and list secrets and read
  a project or its log behave the same whatever the role table holds, so no membership is
  consulted.
\<close>

theorem global_admin_is_always_allowed:
  assumes "user_role u = ''admin''"
  shows "\<not> noProjectAccess u pid d \<and> \<not> noSecretWritePermission u pid d
       \<and> \<not> noProjectAdminPermission u pid d
       \<and> fst (fst (get_project (Some u) pid w)) \<noteq> 403
       \<and> fst (fst (get_project_secrets (Some u) pid w)) \<noteq> 403
       \<and> fst (fst (post_secrets toLowerCase client (Some u) body w)) \<noteq> 403
       \<and> fst (fst (put_secret client (Some u) sid pbody w)) \<noteq> 403
       \<and> fst (fst (delete_secret client (Some u) sid w)) \<noteq> 403
       \<and> fst (fst (post_user_projects (Some u) a w)) \<noteq> 403
       \<and> fst (fst (get_project_users (Some u) pid w)) \<noteq> 403
       \<and> fst (fst (get_project_activity_logs (Some u) pid w)) \<noteq> 403
       \<and> get_project (Some u) pid (withUserProjects ups w)
           = (case get_project (Some u) pid w of (r, w') \<Rightarrow> (r, withUserProjects ups w'))
       \<and> get_project_secrets (Some u) pid (withUserProjects ups w)
           = (case get_project_secrets (Some u) pid w of
                (r, w') \<Rightarrow> (r, withUserProjects ups w'))
       \<and> post_secrets toLowerCase client (Some u) body (withUserProjects ups w)
           = (case post_secrets toLowerCase client (Some u) body w of
                (r, w') \<Rightarrow> (r, withUserProjects ups w'))
       \<and> put_secret client (Some u) sid pbody (withUserProjects ups w)
           = (case put_secret client (Some u) sid pbody w of
                (r, w') \<Rightarrow> (r, withUserProjects ups w'))
       \<and> delete_secret client (Some u) sid (withUserProjects ups w)
           = (case delete_secret client (Some u) sid w of
                (r, w') \<Rightarrow> (r, withUserProjects ups w'))
       \<and> get_project_activity_logs (Some u) pid (withUserProjects ups w)
           = (case get_project_activity_logs (Some u) pid w of
                (r, w') \<Rightarrow> (r, withUserProjects ups w'))"
proof -
  have c: "\<not> noProjectAccess u pid d" "\<not> noSecretWritePermission u pid d"
    "\<not> noProjectAdminPermission u pid d"
    using admin_passes_checks[OF assms, of pid d] by simp_all
  have r1: "fst (fst (get_project (Some u) pid w)) \<noteq> 403"
    using admin_get_project[OF assms, of pid w] by auto
  have r2: "fst (fst (get_project_secrets (Some u) pid w)) \<noteq> 403"
    using admin_get_project_secrets[OF assms, of pid w] by auto
  have r3: "fst (fst (post_secrets toLowerCase client (Some u) body w)) \<noteq> 403"
    using admin_post_secrets[OF assms, of toLowerCase client body w] by auto
  have r4: "fst (fst (put_secret client (Some u) sid pbody w)) \<noteq> 403"
    using admin_put_secret[OF assms, of client sid pbody w] by auto
  have r5: "fst (fst (delete_secret client (Some u) sid w)) \<noteq> 403"
    using admin_delete_secret[OF assms, of client sid w] by auto
  have r6: "fst (fst (post_user_projects (Some u) a w)) \<noteq> 403"
    using admin_post_user_projects[OF assms, of a w] by auto
  have r7: "fst (fst (get_project_users (Some u) pid w)) \<noteq> 403"
    using admin_get_project_users[OF assms, of pid w] by auto
  have r8: "fst (fst (get_project_activity_logs (Some u) pid w)) \<noteq> 403"
    using admin_get_project_activity_logs[OF assms, of pid w] by auto
  note i = admin_get_project_ignores_roles[OF assms, of pid ups w]
    admin_get_project_secrets_ignores_roles[OF assms, of pid ups w]
    admin_post_secrets_ignores_roles[OF assms, of toLowerCase client body ups w]
    admin_put_secret_ignores_roles[OF assms, of client sid pbody ups w]
    admin_delete_secret_ignores_roles[OF assms, of client sid ups w]
    admin_get_project_activity_logs_ignores_roles[OF assms, of pid ups w]
  show ?thesis
    by (intro conjI) (fact c r1 r2 r3 r4 r5 r6 r7 r8 i)+
qed

text \<open>
  The admin of the sample data holds no role row. They delete secret 1 and create a secret
  in project 1, and do so as well when the role table is empty.
\<close>

theorem global_admin_is_always_allowed_witness:
  "user_role root = ''admin''
   \<and> getUserProject (user_id root) 1 (store world0) = None
   \<and> fst (fst (delete_secret paramStore (Some root) 1 world0)) \<noteq> 403
   \<and> fst (delete_secret paramStore (Some root) 1 world0) = (200, SuccessJson)
   \<and> fst (fst (post_secrets lowerAscii paramStore (Some root) dbPassword world0)) \<noteq> 403
   \<and> fst (fst (post_secrets lowerAscii paramStore (Some root) dbPassword world0)) = 201
   \<and> delete_secret paramStore (Some root) 1 (withUserProjects [] world0)
       = (case delete_secret paramStore (Some root) 1 world0 of
            (r, w') \<Rightarrow> (r, withUserProjects [] w'))"
proof -
  have h: "user_role root = ''admin''" by (simp add: root_def)
  note t = global_admin_is_always_allowed[OF h, of 1 "store world0" world0 lowerAscii
      paramStore dbPassword 1 noChange "\<lparr>iup_userId = 5, iup_projectId = 1, iup_role = None\<rparr>" "[]"]
  have e: "getUserProject (user_id root) 1 (store world0) = None
         \<and> fst (delete_secret paramStore (Some root) 1 world0) = (200, SuccessJson)
         \<and> fst (fst (post_secrets lowerAscii paramStore (Some root) dbPassword world0)) = 201"
    by code_simp
  show ?thesis
    by (insert h t e, elim conjE, intro conjI, assumption+)
qed

section \<open>Actors without the global admin role\<close>

lemma no_row_fails_checks:
  "user_role u \<noteq> ''admin'' \<Longrightarrow> getUserProject (user_id u) pid d = None \<Longrightarrow>
     noProjectAccess u pid d \<and> noSecretWritePermission u pid d
     \<and> noProjectAdminPermission u pid d"
  by (simp add: check_defs)

lemma viewer_checks:
  "user_role u \<noteq> ''admin'' \<Longrightarrow> getUserProject (user_id u) pid d = Some up \<Longrightarrow>
   up_role up = ''viewer'' \<Longrightarrow>
     \<not> noProjectAccess u pid d \<and> noSecretWritePermission u pid d
     \<and> noProjectAdminPermission u pid d"
  by (simp add: check_defs)

lemma no_row_denied:
  assumes "user_role u \<noteq> ''admin''" and "getUserProject (user_id u) pid (store w) = None"
  shows "get_project_secrets (Some u) pid w = forbidden w"
    and "is_projectId body = pid \<Longrightarrow> post_secrets toLowerCase client (Some u) body w = forbidden w"
    and "getSecret sid (store w) = Some sec \<Longrightarrow> secret_projectId sec = pid \<Longrightarrow>
           put_secret client (Some u) sid pbody w = forbidden w"
    and "getSecret sid (store w) = Some sec \<Longrightarrow> secret_projectId sec = pid \<Longrightarrow>
           delete_secret client (Some u) sid w = forbidden w"
    and "iup_projectId a = pid \<Longrightarrow> post_user_projects (Some u) a w = forbidden w"
    and "get_project_users (Some u) pid w = forbidden w"
    and "get_project_activity_logs (Some u) pid w = forbidden w"
    and "get_project (Some u) pid w
           = (case getProject pid (store w) of
                None \<Rightarrow> ((404, Message ''Project not found''), w)
              | Some p \<Rightarrow> forbidden w)"
  using no_row_fails_checks[OF assms]
  by (simp_all add: forbidden_def get_project_secrets_def post_secrets_def put_secret_def
        delete_secret_def post_user_projects_def get_project_users_def
        get_project_activity_logs_def get_project_def split: option.splits)

lemma viewer_rights:
  assumes "user_role u \<noteq> ''admin''"
    and "getUserProject (user_id u) pid (store w) = Some up" and "up_role up = ''viewer''"
  shows "fst (fst (get_project_secrets (Some u) pid w)) \<noteq> 403"
    and "activity_logs_id_seq (store w) \<notin> set (map log_id (activityLogs (store w))) \<Longrightarrow>
           fst (get_project_secrets (Some u) pid w)
             = (200, SecretsJson (getProjectSecrets pid (store w)))"
    and "is_projectId body = pid \<Longrightarrow> post_secrets toLowerCase client (Some u) body w = forbidden w"
    and "getSecret sid (store w) = Some sec \<Longrightarrow> secret_projectId sec = pid \<Longrightarrow>
           put_secret client (Some u) sid pbody w = forbidden w"
    and "getSecret sid (store w) = Some sec \<Longrightarrow> secret_projectId sec = pid \<Longrightarrow>
           delete_secret client (Some u) sid w = forbidden w"
  using viewer_checks[OF assms]
  by (simp_all add: forbidden_def get_project_secrets_def post_secrets_def put_secret_def
        delete_secret_def dbWrite_def logActivity_def Let_def
        split: option.splits prod.splits)

text \<open>
  C2. For an actor whose global role is not admin. Without a role row for the project,
  every route scoped to that project answers 403 and leaves the state as it was: listing
  the project's secrets, creating a secret in it, updating and deleting a secret of it,
  assigning a role in it, listing its users and its log, and reading the project (which
  answers 404 first when the project does not exist). With a row whose role is viewer,
  listing the project's secrets is not refused (and answers 200 with the project's secrets
  when the log entry is accepted), while creating, updating and deleting a secret answer
  403.
\<close>

theorem non_admin_needs_role_and_viewer_is_read_only:
  assumes "user_role u \<noteq> ''admin''"
  shows "(getUserProject (user_id u) pid (store w) = None \<longrightarrow>
            get_project_secrets (Some u) pid w = forbidden w
          \<and> (is_projectId body = pid \<longrightarrow> post_secrets toLowerCase client (Some u) body w = forbidden w)
          \<and> (getSecret sid (store w) = Some sec \<and> secret_projectId sec = pid \<longrightarrow>
                put_secret client (Some u) sid pbody w = forbidden w
              \<and> delete_secret client (Some u) sid w = forbidden w)
          \<and> (iup_projectId a = pid \<longrightarrow> post_user_projects (Some u) a w = forbidden w)
          \<and> get_project_users (Some u) pid w = forbidden w
          \<and> get_project_activity_logs (Some u) pid w = forbidden w
          \<and> get_project (Some u) pid w
              = (case getProject pid (store w) of
                   None \<Rightarrow> ((404, Message ''Project not found''), w)
                 | Some p \<Rightarrow> forbidden w))
       \<and> (getUserProject (user_id u) pid (store w) = Some up \<and> up_role up = ''viewer'' \<longrightarrow>
            fst (fst (get_project_secrets (Some u) pid w)) \<noteq> 403
          \<and> (activity_logs_id_seq (store w) \<notin> set (map log_id (activityLogs (store w))) \<longrightarrow>
                fst (get_project_secrets (Some u) pid w)
                  = (200, SecretsJson (getProjectSecrets pid (store w))))
          \<and> (is_projectId body = pid \<longrightarrow> post_secrets toLowerCase client (Some u) body w = forbidden w)
          \<and> (getSecret sid (store w) = Some sec \<and> secret_projectId sec = pid \<longrightarrow>
                put_secret client (Some u) sid pbody w = forbidden w
              \<and> delete_secret client (Some u) sid w = forbidden w))"
proof (intro conjI impI)
  assume n: "getUserProject (user_id u) pid (store w) = None"
  note d = no_row_denied[OF assms n]
  show "get_project_secrets (Some u) pid w = forbidden w" by (rule d(1))
  show "get_project_users (Some u) pid w = forbidden w" by (rule d(6))
  show "get_project_activity_logs (Some u) pid w = forbidden w" by (rule d(7))
  show "get_project (Some u) pid w
          = (case getProject pid (store w) of
               None \<Rightarrow> ((404, Message ''Project not found''), w)
             | Some p \<Rightarrow> forbidden w)" by (rule d(8))
  { assume "is_projectId body = pid"
    then show "post_secrets toLowerCase client (Some u) body w = forbidden w" by (rule d(2)) }
  { assume "iup_projectId a = pid"
    then show "post_user_projects (Some u) a w = forbidden w" by (rule d(5)) }
  { assume s: "getSecret sid (store w) = Some sec \<and> secret_projectId sec = pid"
    show "put_secret client (Some u) sid pbody w = forbidden w"
      using s d(3)[of sid sec client pbody] by blast
    show "delete_secret client (Some u) sid w = forbidden w"
      using s d(4)[of sid sec client] by blast }
next
  assume v: "getUserProject (user_id u) pid (store w) = Some up \<and> up_role up = ''viewer''"
  then have v1: "getUserProject (user_id u) pid (store w) = Some up"
    and v2: "up_role up = ''viewer''" by simp_all
  note r = viewer_rights[OF assms v1 v2]
  show "fst (fst (get_project_secrets (Some u) pid w)) \<noteq> 403" by (rule r(1))
  { assume "activity_logs_id_seq (store w) \<notin> set (map log_id (activityLogs (store w)))"
    then show "fst (get_project_secrets (Some u) pid w)
                 = (200, SecretsJson (getProjectSecrets pid (store w)))" by (rule r(2)) }
  { assume "is_projectId body = pid"
    then show "post_secrets toLowerCase client (Some u) body w = forbidden w" by (rule r(3)) }
  { assume s: "getSecret sid (store w) = Some sec \<and> secret_projectId sec = pid"
    show "put_secret client (Some u) sid pbody w = forbidden w"
      using s r(4)[of sid sec client pbody] by blast
    show "delete_secret client (Some u) sid w = forbidden w"
      using s r(5)[of sid sec client] by blast }
qed

text \<open>
  Nora has no role row in project 1 and is refused everywhere; Vic is a viewer of project 1,
  lists its secrets and is refused the three writes.
\<close>

theorem non_admin_needs_role_and_viewer_is_read_only_witness:
  "user_role nora \<noteq> ''admin''
   \<and> getUserProject (user_id nora) 1 (store world0) = None
   \<and> get_project_secrets (Some nora) 1 world0 = forbidden world0
   \<and> post_secrets lowerAscii paramStore (Some nora) dbPassword world0 = forbidden world0
   \<and> put_secret paramStore (Some nora) 1 noChange world0 = forbidden world0
   \<and> delete_secret paramStore (Some nora) 1 world0 = forbidden world0
   \<and> get_project (Some nora) 1 world0 = forbidden world0
   \<and> user_role vic \<noteq> ''admin''
   \<and> getUserProject (user_id vic) 1 (store world0)
       = Some \<lparr>up_id = 2, up_userId = 3, up_projectId = 1, up_role = ''viewer''\<rparr>
   \<and> fst (get_project_secrets (Some vic) 1 world0) = (200, SecretsJson [apiKey])
   \<and> post_secrets lowerAscii paramStore (Some vic) dbPassword world0 = forbidden world0
   \<and> put_secret paramStore (Some vic) 1 noChange world0 = forbidden world0
   \<and> delete_secret paramStore (Some vic) 1 world0 = forbidden world0"
proof -
  have hn: "user_role nora \<noteq> ''admin''" and hv: "user_role vic \<noteq> ''admin''"
    by (simp_all add: nora_def vic_def)
  have e: "getUserProject (user_id nora) 1 (store world0) = None"
    "getUserProject (user_id vic) 1 (store world0)
       = Some \<lparr>up_id = 2, up_userId = 3, up_projectId = 1, up_role = ''viewer''\<rparr>"
    "is_projectId dbPassword = 1" "getSecret 1 (store world0) = Some apiKey"
    "secret_projectId apiKey = 1"
    "activity_logs_id_seq (store world0) \<notin> set (map log_id (activityLogs (store world0)))"
    "getProjectSecrets 1 (store world0) = [apiKey]"
    "getProject 1 (store world0)
       = Some \<lparr>project_id = 1, project_name = ''Frontend API'',
               project_description = Some ''Frontend API keys and configuration''\<rparr>"
    by code_simp+
  note tn = non_admin_needs_role_and_viewer_is_read_only[OF hn,
      where pid = 1 and w = world0 and body = dbPassword and client = paramStore
        and toLowerCase = lowerAscii
        and sid = 1 and sec = apiKey and pbody = noChange]
  note tv = non_admin_needs_role_and_viewer_is_read_only[OF hv,
      where pid = 1 and w = world0 and body = dbPassword and client = paramStore
        and toLowerCase = lowerAscii
        and sid = 1 and sec = apiKey and pbody = noChange
        and up = "\<lparr>up_id = 2, up_userId = 3, up_projectId = 1, up_role = ''viewer''\<rparr>"]
  from tn e have n: "get_project_secrets (Some nora) 1 world0 = forbidden world0"
    "post_secrets lowerAscii paramStore (Some nora) dbPassword world0 = forbidden world0"
    "put_secret paramStore (Some nora) 1 noChange world0 = forbidden world0"
    "delete_secret paramStore (Some nora) 1 world0 = forbidden world0"
    "get_project (Some nora) 1 world0 = forbidden world0"
    by simp_all
  from tv e have v: "fst (get_project_secrets (Some vic) 1 world0) = (200, SecretsJson [apiKey])"
    "post_secrets lowerAscii paramStore (Some vic) dbPassword world0 = forbidden world0"
    "put_secret paramStore (Some vic) 1 noChange world0 = forbidden world0"
    "delete_secret paramStore (Some vic) 1 world0 = forbidden world0"
    by simp_all
  show ?thesis
    by (intro conjI) (fact hn hv e n v)+
qed

section \<open>Creating a secret\<close>

lemma create_put_fails_any_caller:
  assumes "getProject (is_projectId body) (store w) = Some p"
    and "putParameter client (generateSSMPath toLowerCase (project_name p) (is_name body))
           (is_value body) (parameterType (is_isEncrypted body)) (ssm w) = Inl e"
  shows "store (snd (post_secrets toLowerCase client req_user body w)) = store w"
    and "ssm (snd (post_secrets toLowerCase client req_user body w)) = ssm w"
    and "fst (fst (post_secrets toLowerCase client req_user body w)) \<in> {401, 403, 500}"
    and "journal (snd (post_secrets toLowerCase client req_user body w))
           \<in> {journal w,
              journal w @ [SsmPutParameter (generateSSMPath toLowerCase (project_name p) (is_name body))
                             (is_value body) (parameterType (is_isEncrypted body))]}"
  using assms
  by (simp_all add: post_secrets_def generateSSMPath_def sendPut_def Let_def
        split: option.splits)

lemma create_put_fails_authorized:
  assumes "getProject (is_projectId body) (store w) = Some p"
    and "putParameter client (generateSSMPath toLowerCase (project_name p) (is_name body))
           (is_value body) (parameterType (is_isEncrypted body)) (ssm w) = Inl e"
    and "\<not> noSecretWritePermission u (is_projectId body) (store w)"
  shows "post_secrets toLowerCase client (Some u) body w =
           ((500, ErrorMessage ''Failed to store secret in AWS SSM'' e),
            w\<lparr>journal :=
                journal w @ [SsmPutParameter (generateSSMPath toLowerCase (project_name p) (is_name body))
                               (is_value body) (parameterType (is_isEncrypted body))]\<rparr>)"
  using assms
  by (simp add: post_secrets_def generateSSMPath_def sendPut_def Let_def split: option.splits)

text \<open>
  C3. When the put of a create request fails, whoever sends the request, the relational
  store is left exactly as it was (so no secret row is inserted and no log entry is
  written), the parameter store keeps its state, and the journal gains no call on the
  relational store: at most the refused put. For a caller allowed to create the secret the
  answer is 500 with the message of the error, and the refused put is the only effect.
\<close>

theorem create_aborts_when_put_fails:
  assumes "getProject (is_projectId body) (store w) = Some p"
    and "putParameter client (generateSSMPath toLowerCase (project_name p) (is_name body))
           (is_value body) (parameterType (is_isEncrypted body)) (ssm w) = Inl e"
  shows "store (snd (post_secrets toLowerCase client req_user body w)) = store w
       \<and> secrets (store (snd (post_secrets toLowerCase client req_user body w))) = secrets (store w)
       \<and> activityLogs (store (snd (post_secrets toLowerCase client req_user body w)))
           = activityLogs (store w)
       \<and> ssm (snd (post_secrets toLowerCase client req_user body w)) = ssm w
       \<and> fst (fst (post_secrets toLowerCase client req_user body w)) \<noteq> 201
       \<and> journal (snd (post_secrets toLowerCase client req_user body w))
           \<in> {journal w,
              journal w @ [SsmPutParameter (generateSSMPath toLowerCase (project_name p) (is_name body))
                             (is_value body) (parameterType (is_isEncrypted body))]}
       \<and> (\<not> noSecretWritePermission u (is_projectId body) (store w) \<longrightarrow>
            post_secrets toLowerCase client (Some u) body w =
              ((500, ErrorMessage ''Failed to store secret in AWS SSM'' e),
               w\<lparr>journal :=
                   journal w @ [SsmPutParameter (generateSSMPath toLowerCase (project_name p) (is_name body))
                                  (is_value body) (parameterType (is_isEncrypted body))]\<rparr>))"
proof -
  note a = create_put_fails_any_caller[OF assms, of req_user]
  have "fst (fst (post_secrets toLowerCase client req_user body w)) \<noteq> 201"
    using a(3) by auto
  moreover have "secrets (store (snd (post_secrets toLowerCase client req_user body w))) = secrets (store w)"
    "activityLogs (store (snd (post_secrets toLowerCase client req_user body w))) = activityLogs (store w)"
    using a(1) by simp_all
  ultimately show ?thesis
    using a(1,2,4) create_put_fails_authorized[OF assms, of u] by blast
qed

text \<open>
  Erin, an editor of project 1, creates a secret while the parameter store is unreachable:
  the answer is 500 and the tables are as before.
\<close>

theorem create_aborts_when_put_fails_witness:
  "getProject (is_projectId dbPassword) (store world0)
     = Some \<lparr>project_id = 1, project_name = ''Frontend API'',
             project_description = Some ''Frontend API keys and configuration''\<rparr>
   \<and> putParameter unreachableStore (generateSSMPath lowerAscii ''Frontend API'' (is_name dbPassword))
        (is_value dbPassword) (parameterType (is_isEncrypted dbPassword)) (ssm world0)
       = Inl ''ServiceUnavailable''
   \<and> \<not> noSecretWritePermission erin (is_projectId dbPassword) (store world0)
   \<and> fst (post_secrets lowerAscii unreachableStore (Some erin) dbPassword world0)
       = (500, ErrorMessage ''Failed to store secret in AWS SSM'' ''ServiceUnavailable'')
   \<and> secrets (store (snd (post_secrets lowerAscii unreachableStore (Some erin) dbPassword world0)))
       = [apiKey]
   \<and> activityLogs (store (snd (post_secrets lowerAscii unreachableStore (Some erin) dbPassword world0)))
       = [apiKeyCreated]"
proof -
  have e: "getProject (is_projectId dbPassword) (store world0)
     = Some \<lparr>project_id = 1, project_name = ''Frontend API'',
             project_description = Some ''Frontend API keys and configuration''\<rparr>"
    "putParameter unreachableStore
        (generateSSMPath lowerAscii
           (project_name \<lparr>project_id = 1, project_name = ''Frontend API'',
                           project_description = Some ''Frontend API keys and configuration''\<rparr>)
           (is_name dbPassword))
        (is_value dbPassword) (parameterType (is_isEncrypted dbPassword)) (ssm world0)
       = Inl ''ServiceUnavailable''"
    "\<not> noSecretWritePermission erin (is_projectId dbPassword) (store world0)"
    "secrets (store world0) = [apiKey]" "activityLogs (store world0) = [apiKeyCreated]"
    by code_simp+
  note t = create_aborts_when_put_fails[OF e(1) e(2), of "Some erin" erin]
  from t e(3) have "post_secrets lowerAscii unreachableStore (Some erin) dbPassword world0 =
      ((500, ErrorMessage ''Failed to store secret in AWS SSM'' ''ServiceUnavailable''),
       world0\<lparr>journal := journal world0
                @ [SsmPutParameter
                     (generateSSMPath lowerAscii
                        (project_name \<lparr>project_id = 1, project_name = ''Frontend API'',
                           project_description = Some ''Frontend API keys and configuration''\<rparr>)
                        (is_name dbPassword))
                     (is_value dbPassword) (parameterType (is_isEncrypted dbPassword))]\<rparr>)"
    by blast
  then have r: "fst (post_secrets lowerAscii unreachableStore (Some erin) dbPassword world0)
       = (500, ErrorMessage ''Failed to store secret in AWS SSM'' ''ServiceUnavailable'')"
    by simp
  from t e(4,5) have s: "secrets (store (snd (post_secrets lowerAscii unreachableStore (Some erin) dbPassword world0))) = [apiKey]"
    "activityLogs (store (snd (post_secrets lowerAscii unreachableStore (Some erin) dbPassword world0))) = [apiKeyCreated]"
    by simp_all
  from e(2) have p: "putParameter unreachableStore (generateSSMPath lowerAscii ''Frontend API'' (is_name dbPassword))
        (is_value dbPassword) (parameterType (is_isEncrypted dbPassword)) (ssm world0)
       = Inl ''ServiceUnavailable''"
    by simp
  show ?thesis
    by (intro conjI) (fact e r s p)+
qed

text \<open>What a create request that answers 201 has done.\<close>

lemma post_secrets_created:
  assumes "post_secrets toLowerCase client req_user body w = ((201, SecretJson (Some sec)), w')"
  shows "\<exists>p l. getProject (is_projectId body) (store w) = Some p
           \<and> createSecret (body\<lparr>is_ssmPath := generateSSMPath toLowerCase (project_name p) (is_name body)\<rparr>)
                (store w)
               = (Some sec,
                  snd (createSecret
                         (body\<lparr>is_ssmPath := generateSSMPath toLowerCase (project_name p) (is_name body)\<rparr>)
                         (store w)))
           \<and> putParameter client (generateSSMPath toLowerCase (project_name p) (is_name body))
                (is_value body) (parameterType (is_isEncrypted body)) (ssm w) = Inr (ssm w')
           \<and> store w'
               = snd (logActivity (clock w) l
                        (snd (createSecret
                                (body\<lparr>is_ssmPath :=
                                         generateSSMPath toLowerCase (project_name p) (is_name body)\<rparr>)
                                (store w))))
           \<and> journal w'
               = journal w
                 @ [SsmPutParameter (generateSSMPath toLowerCase (project_name p) (is_name body))
                      (is_value body) (parameterType (is_isEncrypted body)),
                    DbCreateSecret
                      (body\<lparr>is_ssmPath := generateSSMPath toLowerCase (project_name p) (is_name body)\<rparr>),
                    DbLogActivity l]"
  using assms
  by (auto simp add: post_secrets_def generateSSMPath_def sendPut_def dbWrite_def Let_def
        split: option.splits if_splits prod.splits sum.splits)

text \<open>
  C8. After a create request that answers 201 with the row \<open>sec\<close>: the project of the
  request exists; the row's path is \<open>/secrets-manager/\<close>, the project's name in lower case
  (as \<open>toLowerCase\<close> returns it, whatever function that is) with hyphens for spaces,
  \<open>/\<close>, and the name of the request as it was given (whatever path the body carried);
  the row is the one the store returns for its id; and the put that the parameter store
  accepted, the first effect of the request, carried that path and the value stored in the
  row.
\<close>

theorem created_secret_path_and_value:
  assumes "post_secrets toLowerCase client req_user body w = ((201, SecretJson (Some sec)), w')"
  shows "\<exists>p. getProject (is_projectId body) (store w) = Some p
           \<and> ssmPath sec
               = ''/secrets-manager/'' @ replaceSpaces (toLowerCase (project_name p))
                 @ ''/'' @ is_name body
           \<and> ssmPath sec = generateSSMPath toLowerCase (project_name p) (is_name body)
           \<and> secret_name sec = is_name body
           \<and> secret_value sec = is_value body
           \<and> getSecret (secret_id sec) (store w') = Some sec
           \<and> putParameter client (ssmPath sec) (secret_value sec)
                (parameterType (is_isEncrypted body)) (ssm w) = Inr (ssm w')
           \<and> journal w' ! length (journal w)
               = SsmPutParameter (ssmPath sec) (secret_value sec)
                   (parameterType (is_isEncrypted body))"
proof -
  from post_secrets_created[OF assms] obtain p l where
    p: "getProject (is_projectId body) (store w) = Some p"
    and c: "createSecret (body\<lparr>is_ssmPath := generateSSMPath toLowerCase (project_name p) (is_name body)\<rparr>)
              (store w)
             = (Some sec,
                snd (createSecret
                       (body\<lparr>is_ssmPath := generateSSMPath toLowerCase (project_name p) (is_name body)\<rparr>)
                       (store w)))"
    and put: "putParameter client (generateSSMPath toLowerCase (project_name p) (is_name body))
                (is_value body) (parameterType (is_isEncrypted body)) (ssm w) = Inr (ssm w')"
    and st: "store w'
              = snd (logActivity (clock w) l
                       (snd (createSecret
                               (body\<lparr>is_ssmPath :=
                                        generateSSMPath toLowerCase (project_name p) (is_name body)\<rparr>)
                               (store w))))"
    and j: "journal w'
              = journal w
                @ [SsmPutParameter (generateSSMPath toLowerCase (project_name p) (is_name body))
                     (is_value body) (parameterType (is_isEncrypted body)),
                   DbCreateSecret
                     (body\<lparr>is_ssmPath := generateSSMPath toLowerCase (project_name p) (is_name body)\<rparr>),
                   DbLogActivity l]"
    by blast
  have path: "ssmPath sec = generateSSMPath toLowerCase (project_name p) (is_name body)"
    and val: "secret_value sec = is_value body" and nm: "secret_name sec = is_name body"
    using createSecret_Some(1)[OF c] by simp_all
  have got: "getSecret (secret_id sec) (store w') = Some sec"
    using createSecret_Some(2)[OF c] st by simp
  have first: "journal w' ! length (journal w)
                 = SsmPutParameter (ssmPath sec) (secret_value sec)
                     (parameterType (is_isEncrypted body))"
    using j path val by (simp add: nth_append)
  have expl: "ssmPath sec
               = ''/secrets-manager/'' @ replaceSpaces (toLowerCase (project_name p))
                 @ ''/'' @ is_name body"
    using path by (simp add: generateSSMPath_def Let_def)
  show ?thesis
    using p path expl val nm got put first by simp
qed

text \<open>
  Erin creates \<open>DB Password\<close> in the project \<open>Frontend API\<close>; the body proposes another
  path. The row gets the id 2 and the computed path, and the parameter store holds
  the value under that path.
\<close>

theorem created_secret_path_and_value_witness:
  "fst (post_secrets lowerAscii paramStore (Some erin) dbPassword world0)
     = (201, SecretJson (Some \<lparr>secret_id = 2, secret_name = ''DB Password'',
                               secret_value = ''s3cr3t'', secret_description = None,
                               secret_projectId = 1,
                               ssmPath = ''/secrets-manager/frontend-api/DB Password'',
                               isEncrypted = True\<rparr>))
   \<and> getSecret 2 (store (snd (post_secrets lowerAscii paramStore (Some erin) dbPassword world0)))
       = Some \<lparr>secret_id = 2, secret_name = ''DB Password'',
               secret_value = ''s3cr3t'', secret_description = None,
               secret_projectId = 1,
               ssmPath = ''/secrets-manager/frontend-api/DB Password'',
               isEncrypted = True\<rparr>
   \<and> map_of (ssm (snd (post_secrets lowerAscii paramStore (Some erin) dbPassword world0)))
        ''/secrets-manager/frontend-api/DB Password'' = Some (''s3cr3t'', ''SecureString'')"
proof -
  define sec where "sec = \<lparr>secret_id = 2, secret_name = ''DB Password'',
                               secret_value = ''s3cr3t'', secret_description = None,
                               secret_projectId = 1,
                               ssmPath = ''/secrets-manager/frontend-api/DB Password'',
                               isEncrypted = True\<rparr>"
  have r: "fst (post_secrets lowerAscii paramStore (Some erin) dbPassword world0)
             = (201, SecretJson (Some sec))"
    unfolding sec_def by code_simp
  then have e: "post_secrets lowerAscii paramStore (Some erin) dbPassword world0
             = ((201, SecretJson (Some sec)),
                snd (post_secrets lowerAscii paramStore (Some erin) dbPassword world0))"
    by (simp add: prod_eq_iff)
  from created_secret_path_and_value[OF e]
  have g: "getSecret (secret_id sec)
             (store (snd (post_secrets lowerAscii paramStore (Some erin) dbPassword world0))) = Some sec"
    by blast
  have m: "map_of (ssm (snd (post_secrets lowerAscii paramStore (Some erin) dbPassword world0)))
        ''/secrets-manager/frontend-api/DB Password'' = Some (''s3cr3t'', ''SecureString'')"
    by code_simp
  from r g m show ?thesis
    by (simp add: sec_def)
qed

section \<open>Deleting a secret\<close>

lemma delete_fails_any_caller:
  assumes "getSecret sid (store w) = Some sec"
    and "deleteParameter client (ssmPath sec) (ssm w) = Inl e"
  shows "store (snd (delete_secret client req_user sid w)) = store w"
  using assms
  by (simp add: delete_secret_def sendDelete_def Let_def split: option.splits)

lemma delete_fails_authorized:
  assumes "getSecret sid (store w) = Some sec"
    and "\<not> noProjectAdminPermission u (secret_projectId sec) (store w)"
    and "deleteParameter client (ssmPath sec) (ssm w) = Inl e"
  shows "delete_secret client (Some u) sid w =
          ((500, ErrorMessage ''Failed to delete secret from AWS SSM'' e),
           w\<lparr>journal := journal w @ [SsmDeleteParameter (ssmPath sec)]\<rparr>)"
  using assms
  by (simp add: delete_secret_def sendDelete_def Let_def split: option.splits)

lemma delete_succeeds_authorized:
  assumes "getSecret sid (store w) = Some sec"
    and "\<not> noProjectAdminPermission u (secret_projectId sec) (store w)"
    and "deleteParameter client (ssmPath sec) (ssm w) = Inr c"
  shows "ssm (snd (delete_secret client (Some u) sid w)) = c"
    and "getSecret sid (store (snd (delete_secret client (Some u) sid w))) = None"
    and "take (length (journal w) + 2) (journal (snd (delete_secret client (Some u) sid w)))
           = journal w @ [SsmDeleteParameter (ssmPath sec), DbDeleteSecret sid]"
  using assms
  by (simp_all add: delete_secret_def sendDelete_def dbWrite_def Let_def case_prod_beta
        split: option.splits)

lemma delete_row_gone_only_if:
  assumes "getSecret sid (store w) = Some sec"
    and "getSecret sid (store (snd (delete_secret client req_user sid w))) = None"
  shows "\<exists>c. deleteParameter client (ssmPath sec) (ssm w) = Inr c"
  using assms
  by (cases "deleteParameter client (ssmPath sec) (ssm w)")
     (auto simp add: delete_secret_def sendDelete_def Let_def split: option.splits if_splits)

text \<open>
  C5. For a delete request on an existing secret. Whoever sends it, the row is gone
  afterwards only if the parameter store accepted the deletion at the secret's path, and
  when the parameter store refuses it the relational store is exactly as before. For a
  caller allowed to delete: the deletion at the secret's path is the first effect of the
  request; a refusal (of any kind, a not-found error included) ends the request with 500
  and nothing else done; an acceptance is followed by the deletion of the row, which is
  then gone.
\<close>

theorem delete_goes_to_the_credential_store_first:
  assumes "getSecret sid (store w) = Some sec"
  shows "(getSecret sid (store (snd (delete_secret client req_user sid w))) = None \<longrightarrow>
            (\<exists>c. deleteParameter client (ssmPath sec) (ssm w) = Inr c))
       \<and> (\<forall>e. deleteParameter client (ssmPath sec) (ssm w) = Inl e \<longrightarrow>
            store (snd (delete_secret client req_user sid w)) = store w
            \<and> getSecret sid (store (snd (delete_secret client req_user sid w))) = Some sec)
       \<and> (\<not> noProjectAdminPermission u (secret_projectId sec) (store w) \<longrightarrow>
            (\<forall>e. deleteParameter client (ssmPath sec) (ssm w) = Inl e \<longrightarrow>
               delete_secret client (Some u) sid w =
                 ((500, ErrorMessage ''Failed to delete secret from AWS SSM'' e),
                  w\<lparr>journal := journal w @ [SsmDeleteParameter (ssmPath sec)]\<rparr>))
          \<and> (\<forall>c. deleteParameter client (ssmPath sec) (ssm w) = Inr c \<longrightarrow>
               ssm (snd (delete_secret client (Some u) sid w)) = c
               \<and> getSecret sid (store (snd (delete_secret client (Some u) sid w))) = None
               \<and> take (length (journal w) + 2)
                    (journal (snd (delete_secret client (Some u) sid w)))
                   = journal w @ [SsmDeleteParameter (ssmPath sec), DbDeleteSecret sid]))"
proof (intro conjI impI allI)
  assume "getSecret sid (store (snd (delete_secret client req_user sid w))) = None"
  then show "\<exists>c. deleteParameter client (ssmPath sec) (ssm w) = Inr c"
    by (rule delete_row_gone_only_if[OF assms])
next
  fix e assume f: "deleteParameter client (ssmPath sec) (ssm w) = Inl e"
  show "store (snd (delete_secret client req_user sid w)) = store w"
    by (rule delete_fails_any_caller[OF assms f])
  then show "getSecret sid (store (snd (delete_secret client req_user sid w))) = Some sec"
    using assms by simp
next
  fix e assume "\<not> noProjectAdminPermission u (secret_projectId sec) (store w)"
    and "deleteParameter client (ssmPath sec) (ssm w) = Inl e"
  then show "delete_secret client (Some u) sid w =
                 ((500, ErrorMessage ''Failed to delete secret from AWS SSM'' e),
                  w\<lparr>journal := journal w @ [SsmDeleteParameter (ssmPath sec)]\<rparr>)"
    by (rule delete_fails_authorized[OF assms])
next
  fix c assume a: "\<not> noProjectAdminPermission u (secret_projectId sec) (store w)"
    and s: "deleteParameter client (ssmPath sec) (ssm w) = Inr c"
  show "ssm (snd (delete_secret client (Some u) sid w)) = c"
    by (rule delete_succeeds_authorized(1)[OF assms a s])
  show "getSecret sid (store (snd (delete_secret client (Some u) sid w))) = None"
    by (rule delete_succeeds_authorized(2)[OF assms a s])
  show "take (length (journal w) + 2) (journal (snd (delete_secret client (Some u) sid w)))
          = journal w @ [SsmDeleteParameter (ssmPath sec), DbDeleteSecret sid]"
    by (rule delete_succeeds_authorized(3)[OF assms a s])
qed

text \<open>
  Pat, an admin of project 1, deletes secret 1. When the parameter store does not hold the
  parameter the answer is 500 with \<open>ParameterNotFound\<close> and the row stays; when it holds
  it, the parameter and the row are gone.
\<close>

theorem delete_goes_to_the_credential_store_first_witness:
  "getSecret 1 (store world0) = Some apiKey
   \<and> \<not> noProjectAdminPermission pat (secret_projectId apiKey) (store world0)
   \<and> deleteParameter paramStore (ssmPath apiKey) [] = Inl ''ParameterNotFound''
   \<and> delete_secret paramStore (Some pat) 1 (world0\<lparr>ssm := []\<rparr>)
       = ((500, ErrorMessage ''Failed to delete secret from AWS SSM'' ''ParameterNotFound''),
          world0\<lparr>ssm := [], journal := [SsmDeleteParameter (ssmPath apiKey)]\<rparr>)
   \<and> getSecret 1 (store (snd (delete_secret paramStore (Some pat) 1 (world0\<lparr>ssm := []\<rparr>))))
       = Some apiKey
   \<and> deleteParameter paramStore (ssmPath apiKey) (ssm world0) = Inr []
   \<and> ssm (snd (delete_secret paramStore (Some pat) 1 world0)) = []
   \<and> getSecret 1 (store (snd (delete_secret paramStore (Some pat) 1 world0))) = None"
proof -
  have e: "getSecret 1 (store world0) = Some apiKey"
    "getSecret 1 (store (world0\<lparr>ssm := []\<rparr>)) = Some apiKey"
    "\<not> noProjectAdminPermission pat (secret_projectId apiKey) (store world0)"
    "\<not> noProjectAdminPermission pat (secret_projectId apiKey) (store (world0\<lparr>ssm := []\<rparr>))"
    "deleteParameter paramStore (ssmPath apiKey) [] = Inl ''ParameterNotFound''"
    "deleteParameter paramStore (ssmPath apiKey) (ssm (world0\<lparr>ssm := []\<rparr>))
       = Inl ''ParameterNotFound''"
    "deleteParameter paramStore (ssmPath apiKey) (ssm world0) = Inr []"
    "journal world0 = []"
    by code_simp+
  note f = delete_goes_to_the_credential_store_first[OF e(2),
      where client = paramStore and req_user = "Some pat" and u = pat]
  note g = delete_goes_to_the_credential_store_first[OF e(1),
      where client = paramStore and req_user = "Some pat" and u = pat]
  from f e(4,6) have f1: "delete_secret paramStore (Some pat) 1 (world0\<lparr>ssm := []\<rparr>)
       = ((500, ErrorMessage ''Failed to delete secret from AWS SSM'' ''ParameterNotFound''),
          world0\<lparr>ssm := [], journal := journal (world0\<lparr>ssm := []\<rparr>)
                                          @ [SsmDeleteParameter (ssmPath apiKey)]\<rparr>)"
    by simp
  then have f2: "delete_secret paramStore (Some pat) 1 (world0\<lparr>ssm := []\<rparr>)
       = ((500, ErrorMessage ''Failed to delete secret from AWS SSM'' ''ParameterNotFound''),
          world0\<lparr>ssm := [], journal := [SsmDeleteParameter (ssmPath apiKey)]\<rparr>)"
    using e(8) by simp
  from f e(6) have f3:
    "getSecret 1 (store (snd (delete_secret paramStore (Some pat) 1 (world0\<lparr>ssm := []\<rparr>))))
       = Some apiKey"
    by blast
  from g e(3,7) have g1: "ssm (snd (delete_secret paramStore (Some pat) 1 world0)) = []"
    "getSecret 1 (store (snd (delete_secret paramStore (Some pat) 1 world0))) = None"
    by blast+
  show ?thesis
    by (intro conjI) (fact e f2 f3 g1)+
qed

section \<open>Creating a user\<close>

text \<open>
  C9, as stated: every request to \<open>POST /api/users\<close> creates a user with the supplied
  fields. It fails for a request whose username is taken: an unauthenticated request for a
  second user named \<open>erin\<close> is answered 500 and the table of users is as before.
\<close>

theorem post_users_duplicate_username_counterexample:
  "fst (post_users None (mallory\<lparr>iu_username := ''erin''\<rparr>) world0)
     = (500, Message ''Failed to create user'')
   \<and> users (store (snd (post_users None (mallory\<lparr>iu_username := ''erin''\<rparr>) world0)))
       = users (store world0)"
  by code_simp

text \<open>
  C9, amended. For a request whose username and email are not taken (and whose id from the
  sequence is free), whether or not the caller is authenticated: the answer is 201 with a
  user that has exactly the supplied fields, the supplied global role included (\<open>user\<close>
  when none is supplied); that user is the only change to the store; the route does the
  same for every session and for none; and when the supplied role is \<open>admin\<close> the store
  then holds that user with the global role admin.
\<close>

theorem post_users_is_unguarded:
  assumes "iu_username body \<notin> set (map username (users (store w)))"
    and "iu_email body \<notin> set (map email (users (store w)))"
    and "users_id_seq (store w) \<notin> set (map user_id (users (store w)))"
  shows "post_users req_user body w =
           ((201, UserJson \<lparr>user_id = users_id_seq (store w), username = iu_username body,
                             password = iu_password body, email = iu_email body,
                             fullName = iu_fullName body,
                             user_role = (case iu_role body of None \<Rightarrow> ''user''
                                          | Some r \<Rightarrow> r)\<rparr>),
            w\<lparr>store := (store w)
                  \<lparr>users_id_seq := users_id_seq (store w) + 1,
                   users := users (store w)
                     @ [\<lparr>user_id = users_id_seq (store w), username = iu_username body,
                         password = iu_password body, email = iu_email body,
                         fullName = iu_fullName body,
                         user_role = (case iu_role body of None \<Rightarrow> ''user''
                                      | Some r \<Rightarrow> r)\<rparr>]\<rparr>,
              journal := journal w @ [DbCreateUser body]\<rparr>)
       \<and> post_users req_user body w = post_users None body w
       \<and> (iu_role body = Some ''admin'' \<longrightarrow>
            map_option user_role
              (getUser (users_id_seq (store w)) (store (snd (post_users None body w))))
              = Some ''admin'')"
  using assms
  by (simp add: post_users_def dbWrite_def createUser_def Let_def getUser_def
        find_append_fresh)

text \<open>
  Nobody is logged in; the request asks for a user \<open>mallory\<close> with the global role admin.
  The user is created with the id 6 and the role admin.
\<close>

theorem post_users_is_unguarded_witness:
  "iu_username mallory \<notin> set (map username (users (store world0)))
   \<and> iu_email mallory \<notin> set (map email (users (store world0)))
   \<and> users_id_seq (store world0) \<notin> set (map user_id (users (store world0)))
   \<and> iu_role mallory = Some ''admin''
   \<and> fst (post_users None mallory world0)
       = (201, UserJson \<lparr>user_id = 6, username = ''mallory'', password = ''hunter22'',
                          email = ''mallory@example.com'', fullName = ''Mallory'',
                          user_role = ''admin''\<rparr>)
   \<and> map_option user_role (getUser 6 (store (snd (post_users None mallory world0))))
       = Some ''admin''"
proof -
  have e: "iu_username mallory \<notin> set (map username (users (store world0)))"
    "iu_email mallory \<notin> set (map email (users (store world0)))"
    "users_id_seq (store world0) \<notin> set (map user_id (users (store world0)))"
    "iu_role mallory = Some ''admin''"
    by code_simp+
  have v: "users_id_seq (store world0) = 6" "iu_username mallory = ''mallory''"
    "iu_password mallory = ''hunter22''" "iu_email mallory = ''mallory@example.com''"
    "iu_fullName mallory = ''Mallory''"
    by code_simp+
  note t = post_users_is_unguarded[OF e(1,2,3), of None]
  from t e(4) v have r: "fst (post_users None mallory world0)
       = (201, UserJson \<lparr>user_id = 6, username = ''mallory'', password = ''hunter22'',
                          email = ''mallory@example.com'', fullName = ''Mallory'',
                          user_role = ''admin''\<rparr>)"
    by simp
  from t e(4) have "map_option user_role
      (getUser (users_id_seq (store world0)) (store (snd (post_users None mallory world0))))
       = Some ''admin''"
    by blast
  then have g:
    "map_option user_role (getUser 6 (store (snd (post_users None mallory world0))))
       = Some ''admin''"
    unfolding v(1) .
  show ?thesis
    by (intro conjI) (fact e r g)+
qed

section \<open>Updating a secret\<close>

lemma updateSecret_facts:
  "updateAccepted sid body \<Longrightarrow>
     fst (updateSecret sid body d) = Some (map_option (setFields body) (getSecret sid d))"
  "activityLogs (snd (updateSecret sid body d)) = activityLogs d"
  "activity_logs_id_seq (snd (updateSecret sid body d)) = activity_logs_id_seq d"
  by (simp_all add: updateSecret_def getSecret_def Let_def find_map_setFields)

text \<open>The parts of the write-through that hold for every update.\<close>

lemma update_put_fails:
  assumes "getSecret sid (store w) = Some sec"
    and "ps_value body = Some v" and "v \<noteq> []" and "v \<noteq> secret_value sec"
    and "putParameter client (ssmPath sec) v (parameterType (ps_isEncrypted body)) (ssm w)
           = Inl e"
  shows "store (snd (put_secret client req_user sid body w)) = store w"
  using assms
  by (simp add: put_secret_def sendPut_def Let_def split: option.splits)

lemma update_changed_value_written_first:
  assumes "getSecret sid (store w) = Some sec"
    and "\<not> noSecretWritePermission u (secret_projectId sec) (store w)"
    and "ps_value body = Some v" and "v \<noteq> []" and "v \<noteq> secret_value sec"
    and "putParameter client (ssmPath sec) v (parameterType (ps_isEncrypted body)) (ssm w)
           = Inr c"
  shows "take (length (journal w) + 2) (journal (snd (put_secret client (Some u) sid body w)))
           = journal w @ [SsmPutParameter (ssmPath sec) v (parameterType (ps_isEncrypted body)),
                          DbUpdateSecret sid body]"
  using assms
  by (simp add: put_secret_def sendPut_def dbWrite_def Let_def case_prod_beta
        split: option.splits)

lemma update_same_value_skips_credential_store:
  assumes "getSecret sid (store w) = Some sec"
    and "ps_value body = None \<or> ps_value body = Some (secret_value sec)"
  shows "put_secret client req_user sid body w = put_secret client' req_user sid body w"
    and "ssm (snd (put_secret client req_user sid body w)) = ssm w"
  using assms
  by (auto simp add: put_secret_def dbWrite_def Let_def case_prod_beta split: option.splits)

text \<open>
  C4. The parameter store is written, at the secret's path, before the row whenever the
  new value differs from the stored one. The route misses the empty string: Erin, an
  editor of project 1, updates secret 1, whose stored value is \<open>abc\<close>, with the body
  \<open>{value: ""}\<close>. The answer is 200, the row's value is now empty, the journal holds the
  update of the row and the log entry and no command to the parameter store, and the
  parameter store still holds \<open>abc\<close>; the same happens when the parameter store is
  unreachable.
\<close>

theorem put_secret_empty_value_skips_credential_store:
  "getSecret 1 (store world0) = Some apiKey \<and> secret_value apiKey = ''abc''
   \<and> ps_value emptyValue = Some '''' \<and> ps_value emptyValue \<noteq> Some (secret_value apiKey)
   \<and> \<not> noSecretWritePermission erin (secret_projectId apiKey) (store world0)
   \<and> (case put_secret paramStore (Some erin) 1 emptyValue world0 of
        (r, w) \<Rightarrow>
          r = (200, SecretJson (Some (apiKey\<lparr>secret_value := ''''\<rparr>)))
          \<and> getSecret 1 (store w) = Some (apiKey\<lparr>secret_value := ''''\<rparr>)
          \<and> journal w
              = [DbUpdateSecret 1 emptyValue,
                 DbLogActivity \<lparr>il_userId = 2, il_action = ''updated'',
                                 il_resourceType = ''secret'', il_resourceId = 1,
                                 il_details = Some ''Updated secret: API_KEY''\<rparr>]
          \<and> ssm w = ssm world0
          \<and> map_of (ssm w) (ssmPath apiKey) = Some (''abc'', ''SecureString''))
   \<and> put_secret unreachableStore (Some erin) 1 emptyValue world0
       = put_secret paramStore (Some erin) 1 emptyValue world0"
  by code_simp

text \<open>
  The type of the put comes from the body alone. An update that carries only a new value
  rewrites the parameter of an encrypted secret as a plain \<open>String\<close>, while the row keeps
  its flag.
\<close>

lemma put_secret_resets_parameter_type:
  "isEncrypted apiKey
   \<and> map_of (ssm world0) (ssmPath apiKey) = Some (''abc'', ''SecureString'')
   \<and> (case put_secret paramStore (Some erin) 1 newValueOnly world0 of
        (r, w) \<Rightarrow>
          fst r = 200
          \<and> map_of (ssm w) (ssmPath apiKey) = Some (''xyz'', ''String'')
          \<and> map_option isEncrypted (getSecret 1 (store w)) = Some True)"
  by code_simp

lemma put_check_uses_current_project:
  assumes "getSecret sid (store w) = Some sec"
  shows "(fst (fst (put_secret client (Some u) sid body w)) = 403)
           = noSecretWritePermission u (secret_projectId sec) (store w)"
  using assms
  by (simp add: put_secret_def sendPut_def dbWrite_def Let_def case_prod_beta
        split: option.splits sum.splits)

text \<open>What an update request that answers 200 has done.\<close>

lemma put_secret_200:
  assumes "getSecret sid (store w) = Some sec"
    and "fst (fst (put_secret client req_user sid body w)) = 200"
  shows "getSecret sid (store (snd (put_secret client req_user sid body w)))
           = Some (setFields body sec)"
    and "snd (fst (put_secret client req_user sid body w))
           = SecretJson (Some (setFields body sec))"
proof -
  from assms obtain u where u: "req_user = Some u"
    by (cases req_user) (simp_all add: put_secret_def)
  from assms u have a: "\<not> noSecretWritePermission u (secret_projectId sec) (store w)"
    by (auto simp add: put_secret_def)
  define P where "P = (case ps_value body of
                            None \<Rightarrow> (None, w)
                          | Some v \<Rightarrow>
                              if v \<noteq> [] \<and> v \<noteq> secret_value sec
                              then sendPut client (ssmPath sec) v
                                     (parameterType (ps_isEncrypted body)) w
                              else (None, w))"
  have s1: "store (snd P) = store w"
    by (simp add: P_def sendPut_def Let_def split: option.splits sum.splits)
  define entry where "entry = \<lparr>il_userId = user_id u, il_action = ''updated'',
                         il_resourceType = ''secret'', il_resourceId = sid,
                         il_details = Some (''Updated secret: '' @ secret_name sec)\<rparr>"
  have eq: "put_secret client req_user sid body w =
      (case P of
         (Some e, w1) \<Rightarrow> ((500, ErrorMessage ''Failed to update secret in AWS SSM'' e), w1)
       | (None, w1) \<Rightarrow>
           (case dbWrite (DbUpdateSecret sid body) (updateSecret sid body) w1 of
              (None, w2) \<Rightarrow> ((500, Message ''Failed to update secret''), w2)
            | (Some updatedSecret, w2) \<Rightarrow>
                (case dbWrite (DbLogActivity entry) (logActivity (clock w2) entry) w2 of
                   (None, w3) \<Rightarrow> ((500, Message ''Failed to update secret''), w3)
                 | (Some l, w3) \<Rightarrow> ((200, SecretJson updatedSecret), w3))))"
    using assms(1) u a unfolding put_secret_def P_def entry_def Let_def by simp
  obtain r1 w1 where p: "P = (r1, w1)" by (cases P)
  with assms(2) eq have r1: "r1 = None" by (cases r1) simp_all
  obtain r2 w2 where d: "dbWrite (DbUpdateSecret sid body) (updateSecret sid body) w1 = (r2, w2)"
    by (cases "dbWrite (DbUpdateSecret sid body) (updateSecret sid body) w1")
  with assms(2) eq p r1 obtain upd where r2: "r2 = Some upd" by (cases r2) simp_all
  have acc: "updateAccepted sid body"
    using d r2 by (auto simp add: dbWrite_def updateSecret_def split: if_splits)
  obtain r3 w3 where l: "dbWrite (DbLogActivity entry) (logActivity (clock w2) entry) w2 = (r3, w3)"
    by (cases "dbWrite (DbLogActivity entry) (logActivity (clock w2) entry) w2")
  from eq p r1 d r2 l have res: "put_secret client req_user sid body w =
       (case r3 of None \<Rightarrow> ((500, Message ''Failed to update secret''), w3)
                 | Some l \<Rightarrow> ((200, SecretJson upd), w3))"
    by simp
  have w1s: "store w1 = store w" using s1 p by simp
  have upd: "upd = map_option (setFields body) (getSecret sid (store w1))"
    and w2s: "store w2 = snd (updateSecret sid body (store w1))"
    using d r2 updateSecret_facts(1)[OF acc, of "store w1"]
    by (auto simp add: dbWrite_def case_prod_beta)
  have w3s: "store w3 = snd (logActivity (clock w2) entry (store w2))"
    using l by (auto simp add: dbWrite_def case_prod_beta)
  show "getSecret sid (store (snd (put_secret client req_user sid body w)))
           = Some (setFields body sec)"
    using res w3s w2s w1s acc assms(1)
    by (simp add: getSecret_after_update split: option.splits)
  show "snd (fst (put_secret client req_user sid body w))
           = SecretJson (Some (setFields body sec))"
    using res assms(2) upd w1s assms(1) by (simp split: option.splits)
qed

lemma editor_may_write:
  "getUserProject (user_id u) pid d = Some up \<Longrightarrow> up_role up = ''editor'' \<Longrightarrow>
     \<not> noSecretWritePermission u pid d"
  by (simp add: check_defs)

lemma onlyProjectId_accepted: "int4 sid \<Longrightarrow> int4 q \<Longrightarrow> updateAccepted sid (onlyProjectId q)"
  by (simp add: updateAccepted_def noFields_def onlyProjectId_def)

lemma put_secret_onlyProjectId:
  assumes "getSecret sid (store w) = Some sec"
    and "\<not> noSecretWritePermission u (secret_projectId sec) (store w)"
    and "int4 sid" and "int4 q"
    and "activity_logs_id_seq (store w) \<notin> set (map log_id (activityLogs (store w)))"
  shows "fst (fst (put_secret client (Some u) sid (onlyProjectId q) w)) = 200"
  using assms onlyProjectId_accepted[OF assms(3,4)]
  by (simp add: put_secret_def dbWrite_def Let_def case_prod_beta updateSecret_facts
        logActivity_def onlyProjectId_def)

text \<open>
  C10. For an update request on an existing secret. The request is answered 403 exactly
  when the caller lacks the write permission on the project the row names before the
  update; the body plays no part in the check. When the request is answered 200, the row
  is the old row with every supplied field of the body written over it, the project id and
  the path included. And an actor who is an editor of the secret's current project, and
  not a global admin, moves the secret to any project: for every project id \<open>q\<close> (a 32-bit
  integer, as every id in the table is), the request whose body supplies the project id
  \<open>q\<close> is answered 200 and the row then carries \<open>q\<close>, with no condition on the actor's role
  in that project.
\<close>

theorem update_checks_only_the_current_project:
  assumes "getSecret sid (store w) = Some sec"
  shows "((fst (fst (put_secret client (Some u) sid body w)) = 403)
            = noSecretWritePermission u (secret_projectId sec) (store w))
       \<and> (fst (fst (put_secret client req_user sid body w)) = 200 \<longrightarrow>
            getSecret sid (store (snd (put_secret client req_user sid body w)))
              = Some (setFields body sec)
            \<and> (\<forall>q. ps_projectId body = Some q \<longrightarrow>
                  map_option secret_projectId
                    (getSecret sid (store (snd (put_secret client req_user sid body w))))
                    = Some q)
            \<and> (\<forall>x. ps_ssmPath body = Some x \<longrightarrow>
                  map_option ssmPath
                    (getSecret sid (store (snd (put_secret client req_user sid body w))))
                    = Some x))
       \<and> (user_role u \<noteq> ''admin''
          \<and> getUserProject (user_id u) (secret_projectId sec) (store w) = Some up
          \<and> up_role up = ''editor''
          \<and> int4 sid \<and> int4 q
          \<and> activity_logs_id_seq (store w) \<notin> set (map log_id (activityLogs (store w)))
          \<longrightarrow> fst (fst (put_secret client (Some u) sid (onlyProjectId q) w)) = 200
              \<and> map_option secret_projectId
                  (getSecret sid
                     (store (snd (put_secret client (Some u) sid (onlyProjectId q) w))))
                  = Some q)"
proof (intro conjI impI)
  show "(fst (fst (put_secret client (Some u) sid body w)) = 403)
          = noSecretWritePermission u (secret_projectId sec) (store w)"
    by (rule put_check_uses_current_project[OF assms])
next
  assume h: "fst (fst (put_secret client req_user sid body w)) = 200"
  show g: "getSecret sid (store (snd (put_secret client req_user sid body w)))
             = Some (setFields body sec)"
    by (rule put_secret_200(1)[OF assms h])
  show "\<forall>q. ps_projectId body = Some q \<longrightarrow>
          map_option secret_projectId
            (getSecret sid (store (snd (put_secret client req_user sid body w)))) = Some q"
    by (simp add: g setFields_def)
  show "\<forall>x. ps_ssmPath body = Some x \<longrightarrow>
          map_option ssmPath
            (getSecret sid (store (snd (put_secret client req_user sid body w)))) = Some x"
    by (simp add: g setFields_def)
next
  assume h: "user_role u \<noteq> ''admin''
          \<and> getUserProject (user_id u) (secret_projectId sec) (store w) = Some up
          \<and> up_role up = ''editor''
          \<and> int4 sid \<and> int4 q
          \<and> activity_logs_id_seq (store w) \<notin> set (map log_id (activityLogs (store w)))"
  then have a: "\<not> noSecretWritePermission u (secret_projectId sec) (store w)"
    using editor_may_write by blast
  from h have r: "int4 sid" "int4 q"
    "activity_logs_id_seq (store w) \<notin> set (map log_id (activityLogs (store w)))"
    by simp_all
  show s: "fst (fst (put_secret client (Some u) sid (onlyProjectId q) w)) = 200"
    by (rule put_secret_onlyProjectId[OF assms a r])
  have g: "getSecret sid (store (snd (put_secret client (Some u) sid (onlyProjectId q) w)))
             = Some (setFields (onlyProjectId q) sec)"
    by (rule put_secret_200(1)[OF assms s])
  show "map_option secret_projectId
          (getSecret sid (store (snd (put_secret client (Some u) sid (onlyProjectId q) w))))
          = Some q"
    unfolding g by (simp add: setFields_def onlyProjectId_def)
qed

text \<open>
  Erin is an editor of project 1 and has no role in project 2. Her update of secret 1 with
  the project id 2 alone is answered 200 and the row is then in project 2; her update that
  names project 2 and another path is answered 200 and the row carries both.
\<close>

theorem update_checks_only_the_current_project_witness:
  "getSecret 1 (store world0) = Some apiKey
   \<and> user_role erin \<noteq> ''admin''
   \<and> getUserProject (user_id erin) (secret_projectId apiKey) (store world0)
       = Some \<lparr>up_id = 1, up_userId = 2, up_projectId = 1, up_role = ''editor''\<rparr>
   \<and> getUserProject (user_id erin) 2 (store world0) = None
   \<and> int4 1 \<and> int4 2
   \<and> activity_logs_id_seq (store world0) \<notin> set (map log_id (activityLogs (store world0)))
   \<and> fst (fst (put_secret paramStore (Some erin) 1 (onlyProjectId 2) world0)) = 200
   \<and> map_option secret_projectId
        (getSecret 1 (store (snd (put_secret paramStore (Some erin) 1 (onlyProjectId 2) world0))))
       = Some 2
   \<and> ps_projectId moveToAuthService = Some 2
   \<and> ps_ssmPath moveToAuthService = Some ''/elsewhere''
   \<and> fst (fst (put_secret paramStore (Some erin) 1 moveToAuthService world0)) = 200
   \<and> map_option secret_projectId
        (getSecret 1 (store (snd (put_secret paramStore (Some erin) 1 moveToAuthService world0))))
       = Some 2
   \<and> map_option ssmPath
        (getSecret 1 (store (snd (put_secret paramStore (Some erin) 1 moveToAuthService world0))))
       = Some ''/elsewhere''"
proof -
  have e: "getSecret 1 (store world0) = Some apiKey"
    "user_role erin \<noteq> ''admin''"
    "getUserProject (user_id erin) (secret_projectId apiKey) (store world0)
       = Some \<lparr>up_id = 1, up_userId = 2, up_projectId = 1, up_role = ''editor''\<rparr>"
    "getUserProject (user_id erin) 2 (store world0) = None"
    "int4 1" "int4 2"
    "activity_logs_id_seq (store world0) \<notin> set (map log_id (activityLogs (store world0)))"
    "ps_projectId moveToAuthService = Some 2"
    "ps_ssmPath moveToAuthService = Some ''/elsewhere''"
    "fst (fst (put_secret paramStore (Some erin) 1 moveToAuthService world0)) = 200"
    by code_simp+
  note t = update_checks_only_the_current_project[OF e(1),
      where client = paramStore and u = erin and q = 2
        and up = "\<lparr>up_id = 1, up_userId = 2, up_projectId = 1, up_role = ''editor''\<rparr>"]
  have h: "user_role erin \<noteq> ''admin''
          \<and> getUserProject (user_id erin) (secret_projectId apiKey) (store world0)
              = Some \<lparr>up_id = 1, up_userId = 2, up_projectId = 1, up_role = ''editor''\<rparr>
          \<and> up_role \<lparr>up_id = 1, up_userId = 2, up_projectId = 1, up_role = ''editor''\<rparr>
              = ''editor''
          \<and> int4 1 \<and> int4 2
          \<and> activity_logs_id_seq (store world0)
              \<notin> set (map log_id (activityLogs (store world0)))"
    using e by simp
  note r0 = mp[OF conjunct2[OF conjunct2[OF t]] h]
  note m = mp[OF conjunct1[OF conjunct2[OF t[where req_user = "Some erin"
                                               and body = moveToAuthService]]] e(10)]
  have r: "fst (fst (put_secret paramStore (Some erin) 1 (onlyProjectId 2) world0)) = 200"
    "map_option secret_projectId
        (getSecret 1 (store (snd (put_secret paramStore (Some erin) 1 (onlyProjectId 2) world0))))
       = Some 2"
    using r0 by blast+
  have s: "map_option secret_projectId
        (getSecret 1 (store (snd (put_secret paramStore (Some erin) 1 moveToAuthService world0))))
       = Some 2"
    "map_option ssmPath
        (getSecret 1 (store (snd (put_secret paramStore (Some erin) 1 moveToAuthService world0))))
       = Some ''/elsewhere''"
    using m e(8,9) by blast+
  show ?thesis
    by (intro conjI) (fact e r s)+
qed


end
